theory Spec2Isabelle
  imports Complex_Main "HOL-Library.Sublist" "HOL-Library.Multiset"
begin

section \<open>Project analyzer extension: a shallow embedding of \<^verbatim>\<open>src/extension.ts\<close>\<close>

text \<open>
  The extension walks a workspace, counts files, directories, languages and lines, asks a
  text-generation service for a verdict on every file, asks it once more for a verdict on
  the whole project and prints a report. The embedding follows the source function by
  function and keeps its names.

  \<^item> A JavaScript string is a \<open>string\<close>: a list of code units. The type \<open>char\<close> holds
    the code units 0 to 255; every literal of the source is ASCII.
  \<^item> A JavaScript number is a \<open>real\<close> (exact arithmetic; NaN and the infinities are not
    values of the model, and \<open>JSON.parse\<close> yields neither from a finite literal). The
    counters of \<open>ProjectInfo\<close> only ever count up from 0 and are \<open>nat\<close>.
  \<^item> Values whose TypeScript type is erased at run time (the result of \<open>JSON.parse\<close>,
    the entries of \<open>aiRatings\<close>) are \<open>jsval\<close>.
  \<^item> The file system is a finite tree, read by \<open>readdirSync\<close>, \<open>statSync\<close> and
    \<open>readFileSync\<close>; each of the three can raise.
  \<^item> The module variables \<open>genAI\<close> and \<open>model\<close> are the record \<open>service\<close>, which also
    counts the requests issued.
  \<^item> Library functions that are not code of the repository (\<open>JSON.parse\<close>, the matcher
    of the package \<open>ignore\<close>, the coercions \<open>ToNumber\<close> and \<open>ToString\<close> on values that
    are not already a number or a string) are parameters.
\<close>

subsection \<open>Strings\<close>

text \<open>\<open>String.prototype.includes\<close>.\<close>

fun js_includes :: "string \<Rightarrow> string \<Rightarrow> bool" where
  "js_includes [] sep = (sep = [])"
| "js_includes (c # cs) sep = (prefix sep (c # cs) \<or> js_includes cs sep)"

text \<open>
  \<open>String.prototype.split\<close> with a separator that is not empty: the text is cut at every
  occurrence of the separator, found from the left, occurrences not overlapping. The
  result always has a first segment, so the empty case of the inner \<open>case\<close> is never taken.
\<close>

fun split_go :: "string \<Rightarrow> string \<Rightarrow> string list" where
  "split_go sep [] = [[]]"
| "split_go sep (c # cs) =
     (if prefix sep (c # cs) then [] # split_go sep (drop (length sep - 1) cs)
      else (case split_go sep cs of
              [] \<Rightarrow> [[c]]
            | segment # segments \<Rightarrow> (c # segment) # segments))"

definition js_split :: "string \<Rightarrow> string \<Rightarrow> string list" where
  "js_split s sep = (if sep = [] then map (\<lambda>c. [c]) s else split_go sep s)"

text \<open>
  \<open>String.prototype.trim\<close> removes white space and line terminators from both ends; the
  ones among the code units 0 to 255 are tab, line feed, vertical tab, form feed, carriage
  return, space and the no-break space.
\<close>

definition is_js_space :: "char \<Rightarrow> bool" where
  "is_js_space c = (c \<in> set [CHR 0x09, CHR 0x0A, CHR 0x0B, CHR 0x0C, CHR 0x0D, CHR 0x20, CHR 0xA0])"

definition js_trim :: "string \<Rightarrow> string" where
  "js_trim s = rev (dropWhile is_js_space (rev (dropWhile is_js_space s)))"

text \<open>\<open>s.substring(0, n)\<close>.\<close>

definition js_substring0 :: "string \<Rightarrow> nat \<Rightarrow> string" where
  "js_substring0 s n = take n s"

text \<open>\<open>Array.prototype.join\<close> on strings.\<close>

fun js_join :: "string \<Rightarrow> string list \<Rightarrow> string" where
  "js_join sep [] = []"
| "js_join sep [x] = x"
| "js_join sep (x # y # ys) = x @ sep @ js_join sep (y # ys)"

text \<open>\<open>String.prototype.toLowerCase\<close> on the code units 0 to 255.\<close>

definition lower_char :: "char \<Rightarrow> char" where
  "lower_char c =
     (let n = of_char c :: nat in
      if (65 \<le> n \<and> n \<le> 90) \<or> (192 \<le> n \<and> n \<le> 222 \<and> n \<noteq> 215) then char_of (n + 32) else c)"

definition toLowerCase :: "string \<Rightarrow> string" where
  "toLowerCase s = map lower_char s"

text \<open>A counter in a template literal: the decimal numeral of a natural number.\<close>

fun digits_of :: "nat \<Rightarrow> string \<Rightarrow> string" where
  "digits_of n acc =
     (if n < 10 then char_of (48 + n) # acc
      else digits_of (n div 10) (char_of (48 + n mod 10) # acc))"

definition show_nat :: "nat \<Rightarrow> string" where
  "show_nat n = digits_of n []"

definition nl :: string where
  "nl = [CHR 0x0A]"

subsection \<open>Values\<close>

text \<open>
  \<open>JFun\<close> stands for a function object; the program meets one only as a member inherited
  from \<open>Object.prototype\<close>.
\<close>

datatype jsval =
    JUndefined
  | JNull
  | JBool bool
  | JNum real
  | JStr string
  | JArr "jsval list"
  | JObj "(string \<times> jsval) list"
  | JFun

text \<open>Truthiness, and the operator \<open>||\<close>.\<close>

fun truthy :: "jsval \<Rightarrow> bool" where
  "truthy JUndefined = False"
| "truthy JNull = False"
| "truthy (JBool b) = b"
| "truthy (JNum x) = (x \<noteq> 0)"
| "truthy (JStr s) = (s \<noteq> [])"
| "truthy (JArr xs) = True"
| "truthy (JObj ps) = True"
| "truthy JFun = True"

definition js_or :: "jsval \<Rightarrow> jsval \<Rightarrow> jsval" where
  "js_or a b = (if truthy a then a else b)"

text \<open>The members every object inherits from \<open>Object.prototype\<close>, the accessor \<open>__proto__\<close> apart.\<close>

definition object_prototype_members :: "string list" where
  "object_prototype_members =
     [''constructor'', ''__defineGetter__'', ''__defineSetter__'', ''hasOwnProperty'',
      ''__lookupGetter__'', ''__lookupSetter__'', ''isPrototypeOf'', ''propertyIsEnumerable'',
      ''toString'', ''valueOf'', ''toLocaleString'']"

definition object_prototype_get :: "string \<Rightarrow> jsval" where
  "object_prototype_get k = (if k \<in> set object_prototype_members then JFun else JUndefined)"

text \<open>
  Reading a property \<open>v.k\<close>, for the four names the program reads (\<open>rating\<close>, \<open>complexity\<close>,
  \<open>explanation\<close>, \<open>suggestions\<close>): \<open>None\<close> is the TypeError that \<open>undefined\<close> and \<open>null\<close>
  raise. An object answers with its own property, everything else with what it inherits;
  no prototype of a string, number, boolean, array or function has one of the four names.
\<close>

fun get_prop :: "jsval \<Rightarrow> string \<Rightarrow> jsval option" where
  "get_prop JUndefined k = None"
| "get_prop JNull k = None"
| "get_prop (JObj ps) k = Some (case map_of ps k of Some x \<Rightarrow> x | None \<Rightarrow> object_prototype_get k)"
| "get_prop v k = Some (object_prototype_get k)"

text \<open>The optional chain \<open>v?.k\<close>.\<close>

definition get_prop_opt :: "jsval \<Rightarrow> string \<Rightarrow> jsval" where
  "get_prop_opt v k = (case get_prop v k of None \<Rightarrow> JUndefined | Some x \<Rightarrow> x)"

text \<open>An object literal with the fields of the interface \<open>FileAnalysis\<close>.\<close>

definition FileAnalysis :: "jsval \<Rightarrow> jsval \<Rightarrow> jsval \<Rightarrow> jsval \<Rightarrow> jsval" where
  "FileAnalysis r c e s =
     JObj [(''rating'', r), (''complexity'', c), (''explanation'', e), (''suggestions'', s)]"

subsection \<open>Objects used as dictionaries\<close>

text \<open>
  \<open>aiRatings\<close> starts as the literal \<open>{}\<close> and is written with \<open>aiRatings[relativePath] = v\<close>.
  Such an object has its own properties, in insertion order, and a prototype:
  \<open>Object.prototype\<close> (\<open>None\<close>) until the accessor \<open>__proto__\<close> replaces it.

  The accessor \<open>__proto__\<close> is a member of \<open>Object.prototype\<close>. An object inherits it
  unless its prototype is \<open>null\<close> or an object with a property \<open>__proto__\<close> of its own.
  Writing the key \<open>__proto__\<close> of an object that inherits the accessor and has no such
  property of its own calls the accessor: it creates no property, sets the prototype when
  the value is an object or \<open>null\<close>, and does nothing for any other value. Every other
  write creates the property or overwrites it.
\<close>

record js_object =
  own :: "(string \<times> jsval) list"
  proto :: "jsval option"

definition empty_object :: js_object where
  "empty_object = \<lparr>own = [], proto = None\<rparr>"

fun upsert :: "'k \<Rightarrow> 'v \<Rightarrow> ('k \<times> 'v) list \<Rightarrow> ('k \<times> 'v) list" where
  "upsert k v [] = [(k, v)]"
| "upsert k v ((k', v') # xs) = (if k = k' then (k, v) # xs else (k', v') # upsert k v xs)"

fun is_object_or_null :: "jsval \<Rightarrow> bool" where
  "is_object_or_null JNull = True"
| "is_object_or_null (JArr xs) = True"
| "is_object_or_null (JObj ps) = True"
| "is_object_or_null JFun = True"
| "is_object_or_null v = False"

fun inherits_proto_accessor :: "jsval option \<Rightarrow> bool" where
  "inherits_proto_accessor None = True"
| "inherits_proto_accessor (Some JNull) = False"
| "inherits_proto_accessor (Some (JObj ps)) = (map_of ps ''__proto__'' = None)"
| "inherits_proto_accessor (Some v) = True"

definition js_set :: "js_object \<Rightarrow> string \<Rightarrow> jsval \<Rightarrow> js_object" where
  "js_set obj k v =
     (if k = ''__proto__'' \<and> map_of (own obj) k = None \<and> inherits_proto_accessor (proto obj)
      then (if is_object_or_null v then obj\<lparr>proto := Some v\<rparr> else obj)
      else obj\<lparr>own := upsert k v (own obj)\<rparr>)"

text \<open>
  Reading \<open>obj[k]\<close>: the own property; else, for the key \<open>__proto__\<close> of an object that
  inherits the accessor, the prototype; else what the prototype chain has.
\<close>

definition js_get :: "js_object \<Rightarrow> string \<Rightarrow> jsval" where
  "js_get obj k =
     (case map_of (own obj) k of
        Some v \<Rightarrow> v
      | None \<Rightarrow>
          (if k = ''__proto__'' \<and> inherits_proto_accessor (proto obj)
           then (case proto obj of None \<Rightarrow> JObj [] | Some p \<Rightarrow> p)
           else (case proto obj of None \<Rightarrow> object_prototype_get k | Some p \<Rightarrow> get_prop_opt p k)))"

text \<open>
  \<open>Object.keys\<close> and \<open>Object.entries\<close> list the own properties: first the keys that are
  array indices (canonical decimal numerals below \<open>2^32 - 1\<close>) in ascending order, then
  the other keys in insertion order.
\<close>

definition is_digit :: "char \<Rightarrow> bool" where
  "is_digit c = (48 \<le> (of_char c :: nat) \<and> (of_char c :: nat) \<le> 57)"

definition nat_of_digits :: "string \<Rightarrow> nat" where
  "nat_of_digits s = foldl (\<lambda>n c. 10 * n + ((of_char c :: nat) - 48)) 0 s"

definition array_index :: "string \<Rightarrow> nat option" where
  "array_index k =
     (if k \<noteq> [] \<and> list_all is_digit k \<and> (k = ''0'' \<or> hd k \<noteq> CHR ''0'') \<and> length k \<le> 10
         \<and> nat_of_digits k < 4294967295
      then Some (nat_of_digits k) else None)"

definition js_entries :: "js_object \<Rightarrow> (string \<times> jsval) list" where
  "js_entries obj =
     sort_key (\<lambda>(k, v). case array_index k of Some n \<Rightarrow> n | None \<Rightarrow> 0) (filter (\<lambda>(k, v). array_index k \<noteq> None) (own obj))
     @ filter (\<lambda>(k, v). array_index k = None) (own obj)"

definition js_keys :: "js_object \<Rightarrow> string list" where
  "js_keys obj = map fst (js_entries obj)"

subsection \<open>Paths (the module \<open>path\<close>, POSIX flavour)\<close>

text \<open>
  The components of a path, without the empty ones that repeated or leading separators
  leave; \<open>.\<close> and \<open>..\<close> resolved as \<open>path.normalize\<close> resolves them.
\<close>

definition path_components :: "string \<Rightarrow> string list" where
  "path_components p = filter (\<lambda>c. c \<noteq> []) (js_split p ''/'')"

fun normalize_go :: "bool \<Rightarrow> string list \<Rightarrow> string list \<Rightarrow> string list" where
  "normalize_go absolute acc [] = rev acc"
| "normalize_go absolute acc (c # cs) =
     (if c = ''.'' then normalize_go absolute acc cs
      else if c = ''..'' then
        (case acc of
           [] \<Rightarrow> (if absolute then normalize_go absolute [] cs else normalize_go absolute [c] cs)
         | a # acc' \<Rightarrow>
             (if a = ''..'' then normalize_go absolute (c # acc) cs
              else normalize_go absolute acc' cs))
      else normalize_go absolute (c # acc) cs)"

definition is_absolute :: "string \<Rightarrow> bool" where
  "is_absolute p = (p \<noteq> [] \<and> hd p = CHR ''/'')"

definition path_normalize :: "string \<Rightarrow> string" where
  "path_normalize p =
     (if p = [] then ''.''
      else
        (let r = js_join ''/'' (normalize_go (is_absolute p) [] (path_components p));
             r' = (if r = [] \<and> \<not> is_absolute p then ''.'' else r);
             r'' = (if r' \<noteq> [] \<and> last p = CHR ''/'' then r' @ ''/'' else r')
         in if is_absolute p then ''/'' @ r'' else r''))"

text \<open>\<open>path.join(a, b)\<close> for two arguments.\<close>

definition path_join :: "string \<Rightarrow> string \<Rightarrow> string" where
  "path_join a b =
     (if a = [] \<and> b = [] then ''.''
      else if a = [] then path_normalize b
      else if b = [] then path_normalize a
      else path_normalize (a @ ''/'' @ b))"

text \<open>
  \<open>path.relative(from, to)\<close> for absolute paths (the workspace root that VS Code hands
  over is absolute): past the components both share, one \<open>..\<close> for each remaining
  component of \<open>from\<close>, then the remaining components of \<open>to\<close>.
\<close>

fun common_prefix_length :: "'a list \<Rightarrow> 'a list \<Rightarrow> nat" where
  "common_prefix_length (x # xs) (y # ys) = (if x = y then Suc (common_prefix_length xs ys) else 0)"
| "common_prefix_length xs ys = 0"

definition path_relative :: "string \<Rightarrow> string \<Rightarrow> string" where
  "path_relative from to =
     (let f = normalize_go True [] (path_components from);
          t = normalize_go True [] (path_components to);
          n = common_prefix_length f t
      in js_join ''/'' (replicate (length f - n) ''..'' @ drop n t))"

definition path_basename :: "string \<Rightarrow> string" where
  "path_basename p = (case path_components p of [] \<Rightarrow> [] | c # cs \<Rightarrow> last (c # cs))"

text \<open>
  \<open>path.extname\<close>: from the last dot of the base name on; empty when the base name has
  no dot, when its only dot comes first, and for \<open>..\<close>.
\<close>

definition path_extname :: "string \<Rightarrow> string" where
  "path_extname p =
     (let b = path_basename p;
          upto_dot = rev (dropWhile (\<lambda>c. c \<noteq> CHR ''.'') (rev b))
      in if upto_dot = [] \<or> length upto_dot = 1 \<or> b = ''..'' then []
         else drop (length upto_dot - 1) b)"

subsection \<open>\<open>getLanguage\<close> and \<open>countLines\<close>\<close>

definition language_table :: "(string \<times> string) list" where
  "language_table =
     [(''.js'', ''JavaScript''), (''.ts'', ''TypeScript''), (''.html'', ''HTML''),
      (''.css'', ''CSS''), (''.py'', ''Python''), (''.java'', ''Java''), (''.c'', ''C''),
      (''.cpp'', ''C++''), (''.go'', ''Go''), (''.rs'', ''Rust''), (''.php'', ''PHP''),
      (''.rb'', ''Ruby''), (''.swift'', ''Swift''), (''.kt'', ''Kotlin''),
      (''.sh'', ''Shell Script''), (''.md'', ''Markdown''), (''.json'', ''JSON''),
      (''.xml'', ''XML''), (''.yaml'', ''YAML''), (''.yml'', ''YAML''),
      (''.tsx'', ''TypeScriptReact''), (''.jsx'', ''JavaScriptReact'')]"

definition getLanguage :: "string \<Rightarrow> string" where
  "getLanguage filePath =
     (case map_of language_table (toLowerCase (path_extname filePath)) of
        Some language \<Rightarrow> language
      | None \<Rightarrow> ''Unknown'')"

text \<open>
  The file system under the workspace root. \<open>File c\<close> is a regular file whose text is
  \<open>c\<close>, or that \<open>readFileSync\<close> cannot read (\<open>None\<close>); \<open>Dir es\<close> is a directory with the
  entries \<open>readdirSync\<close> lists, in its order; \<open>UnreadableDir\<close> is a directory that
  \<open>readdirSync\<close> raises on; \<open>Other\<close> is neither a file nor a directory (a socket, a
  device); \<open>StatFails\<close> is an entry that \<open>statSync\<close> raises on (a dangling link).
\<close>

datatype fsnode =
    File "string option"
  | Dir "(string \<times> fsnode) list"
  | UnreadableDir
  | Other
  | StatFails

text \<open>
  \<open>countLines\<close> reads the file itself; the model hands it what \<open>readFileSync\<close> gives
  for the path.
\<close>

definition countLines :: "string option \<Rightarrow> nat" where
  "countLines readFileSync =
     (case readFileSync of
        Some fileContent \<Rightarrow> length (js_split fileContent nl)
      | None \<Rightarrow> 0)"

subsection \<open>The records of the program\<close>

record ProjectInfo =
  projectName :: string
  rootPath :: string
  fileCount :: nat
  directoryCount :: nat
  totalLines :: nat
  languages :: "(string \<times> nat) list"
  elapsedTime :: real
  files :: "string list"
  aiRatings :: js_object

definition ProjectAnalysis :: "jsval \<Rightarrow> jsval \<Rightarrow> jsval \<Rightarrow> jsval \<Rightarrow> jsval \<Rightarrow> jsval" where
  "ProjectAnalysis r c s w rc =
     JObj [(''overall_rating'', r), (''complexity_assessment'', c), (''project_strengths'', s),
           (''project_weaknesses'', w), (''recommendations'', rc)]"

subsection \<open>The service\<close>

text \<open>
  What one call of \<open>model.generateContent\<close> does, up to the text of the answer: it
  raises (the text is what \<open>error.message || error\<close> prints; reading \<open>result.response\<close>
  or \<open>response.candidates\<close> of an answer that lacks them raises in the same \<open>try\<close>), or
  it answers, and \<open>response.candidates?.[0]?.content?.parts?.[0]?.text\<close> is a string or
  \<open>undefined\<close>.
\<close>

datatype gen_outcome = Raises string | Responds "string option"

text \<open>
  The module variables \<open>genAI\<close> and \<open>model\<close>: set or not. A model that is set answers the
  \<open>n\<close>-th request with prompt \<open>p\<close> by \<open>generateContent n p\<close>. \<open>requests\<close> counts the calls
  of \<open>generateContent\<close>.
\<close>

record service =
  genAI :: bool
  model :: "(nat \<Rightarrow> string \<Rightarrow> gen_outcome) option"
  requests :: nat

definition not_initialized :: string where
  "not_initialized = ''Gemini API or model not initialized.''"

subsection \<open>\<open>analyzeContent\<close>\<close>

definition content_prompt :: "string \<Rightarrow> string" where
  \<open>content_prompt fileContent = js_join nl
     [''You are a code reviewer and complexity analyst. Analyze the following code and provide:'',
      ''1. A rating on a scale of 1 to 10, where 1 is very poor and 10 is excellent'',
      ''2. The time complexity of the code using Big O notation'',
      ''3. A brief explanation of the rating'',
      ''4. Specific, actionable suggestions for improvement'',
      [],
      ''Code:'',
      ''```'',
      fileContent,
      ''```'',
      [],
      ''Respond with a JSON object in this exact format:'',
      ''{'',
      ''  "rating": <number>,'',
      ''  "complexity": "<Big O notation>",'',
      ''  "explanation": "<brief explanation>",'',
      ''  "suggestions": "<specific, actionable suggestions>"'',
      ''}'']\<close>

text \<open>
  The text handed to \<open>JSON.parse\<close>:
  \<^verbatim>\<open>responseText.split('```json')[1].split('```')[0].trim()\<close> when the response includes
  the marker, the response itself otherwise. \<open>None\<close> is the TypeError of calling \<open>split\<close>
  on an element the array does not have.
\<close>

definition fence_json :: string where
  "fence_json = ''```json''"

definition fence :: string where
  "fence = ''```''"

definition extract_json :: "string \<Rightarrow> string option" where
  "extract_json responseText =
     (if js_includes responseText fence_json then
        (case js_split responseText fence_json of
           before # enclosed # further \<Rightarrow>
             (case js_split enclosed fence of
                [] \<Rightarrow> None
              | first # others \<Rightarrow> Some (js_trim first))
         | _ \<Rightarrow> None)
      else Some responseText)"

definition type_error_message :: string where
  "type_error_message = ''Cannot read properties of undefined (reading 'split')''"

definition call_error :: "string \<Rightarrow> jsval" where
  "call_error message =
     FileAnalysis (JNum 0) (JStr ''N/A'') (JStr (''Error calling Gemini API: '' @ message)) (JStr [])"

definition parse_error :: "string \<Rightarrow> jsval" where
  "parse_error responseText =
     FileAnalysis (JNum 0) (JStr ''N/A'')
       (JStr (''Error parsing response: '' @ js_substring0 responseText 100 @ ''...'')) (JStr [])"

definition no_response :: jsval where
  "no_response =
     FileAnalysis (JNum 0) (JStr ''N/A'') (JStr ''No response from Gemini API.'') (JStr [])"

text \<open>
  The inner \<open>try\<close>: \<open>JSON.parse\<close> and the four reads with their defaults. A read on
  \<open>null\<close> raises inside the same \<open>try\<close>, so it ends in the same \<open>catch\<close> as a syntax
  error.
\<close>

definition parse_analysis :: "(string \<Rightarrow> jsval option) \<Rightarrow> string \<Rightarrow> string \<Rightarrow> jsval" where
  "parse_analysis JSON_parse responseText jsonStr =
     (case JSON_parse jsonStr of
        None \<Rightarrow> parse_error responseText
      | Some jsonResponse \<Rightarrow>
          (case (get_prop jsonResponse ''rating'', get_prop jsonResponse ''complexity'',
                 get_prop jsonResponse ''explanation'', get_prop jsonResponse ''suggestions'') of
             (Some r, Some c, Some e, Some s) \<Rightarrow>
               FileAnalysis (js_or r (JNum 0)) (js_or c (JStr ''O(1)'')) (js_or e (JStr []))
                 (js_or s (JStr []))
           | _ \<Rightarrow> parse_error responseText))"

definition analyzeContent ::
  "(string \<Rightarrow> jsval option) \<Rightarrow> service \<Rightarrow> string \<Rightarrow> string \<Rightarrow> jsval \<times> service" where
  "analyzeContent JSON_parse svc filePath fileContent =
     (case (if genAI svc then model svc else None) of
        None \<Rightarrow> (JStr not_initialized, svc)
      | Some generateContent \<Rightarrow>
          (let prompt = content_prompt fileContent;
               svc' = svc\<lparr>requests := requests svc + 1\<rparr>
           in case generateContent (requests svc) prompt of
                Raises message \<Rightarrow> (call_error message, svc')
              | Responds None \<Rightarrow> (no_response, svc')
              | Responds (Some responseText) \<Rightarrow>
                  (if responseText = [] then (no_response, svc')
                   else
                     (case extract_json responseText of
                        None \<Rightarrow> (call_error type_error_message, svc')
                      | Some jsonStr \<Rightarrow> (parse_analysis JSON_parse responseText jsonStr, svc')))))"

subsection \<open>\<open>traverseDirectory\<close>\<close>

datatype walk_error = ReaddirRaised | StatRaised | IgnoresRaised

definition default_analysis :: jsval where
  "default_analysis = FileAnalysis (JNum 0) (JStr ''N/A'') (JStr ''Error processing file'') (JStr [])"

text \<open>\<open>projectInfo.languages[language] = (projectInfo.languages[language] || 0) + 1\<close>.\<close>

definition count_language :: "string \<Rightarrow> (string \<times> nat) list \<Rightarrow> (string \<times> nat) list" where
  "count_language language ls =
     upsert language ((case map_of ls language of Some n \<Rightarrow> n | None \<Rightarrow> 0) + 1) ls"

text \<open>
  The branch \<open>stats.isFile()\<close> of the loop body: the counters, the language, the lines,
  the path, then the \<open>try\<close> around \<open>readFileSync\<close> and \<open>analyzeContent\<close>.
\<close>

definition visit_file ::
  "(string \<Rightarrow> jsval option) \<Rightarrow> string \<Rightarrow> string \<Rightarrow> string option \<Rightarrow> ProjectInfo \<times> service
     \<Rightarrow> ProjectInfo \<times> service" where
  "visit_file JSON_parse fullPath relativePath readFileSync st =
     (case st of (projectInfo, svc) \<Rightarrow>
        (let p1 = projectInfo\<lparr>fileCount := fileCount projectInfo + 1\<rparr>;
             language = getLanguage fullPath;
             p2 = p1\<lparr>languages := count_language language (languages p1)\<rparr>;
             p3 = p2\<lparr>totalLines := totalLines p2 + countLines readFileSync\<rparr>;
             p4 = p3\<lparr>files := files p3 @ [relativePath]\<rparr>
         in case readFileSync of
              None \<Rightarrow> (p4\<lparr>aiRatings := js_set (aiRatings p4) relativePath default_analysis\<rparr>, svc)
            | Some fileContent \<Rightarrow>
                (case analyzeContent JSON_parse svc fullPath fileContent of
                   (aiRating, svc') \<Rightarrow>
                     (p4\<lparr>aiRatings := js_set (aiRatings p4) relativePath aiRating\<rparr>, svc'))))"

text \<open>
  \<open>traverseDirectory\<close> lists the directory and \<open>traverseEntries\<close> is its \<open>for\<close> loop. The
  predicate \<open>isIgnored\<close> answers \<open>Some b\<close>, or raises (\<open>None\<close>): the matcher of the package
  \<open>ignore\<close> raises a RangeError on a path it does not take for a relative one. An error
  that \<open>readdirSync\<close>, \<open>isIgnored\<close> or \<open>statSync\<close> raises is caught nowhere: it ends the
  run.
\<close>

fun traverseDirectory ::
  "(string \<Rightarrow> jsval option) \<Rightarrow> (string \<Rightarrow> bool option) \<Rightarrow> string \<Rightarrow> fsnode
     \<Rightarrow> ProjectInfo \<times> service \<Rightarrow> walk_error + ProjectInfo \<times> service"
and traverseEntries ::
  "(string \<Rightarrow> jsval option) \<Rightarrow> (string \<Rightarrow> bool option) \<Rightarrow> string \<Rightarrow> (string \<times> fsnode) list
     \<Rightarrow> ProjectInfo \<times> service \<Rightarrow> walk_error + ProjectInfo \<times> service"
where
  "traverseDirectory JSON_parse isIgnored dir (Dir entries) st =
     traverseEntries JSON_parse isIgnored dir entries st"
| "traverseDirectory JSON_parse isIgnored dir (File c) st = Inl ReaddirRaised"
| "traverseDirectory JSON_parse isIgnored dir UnreadableDir st = Inl ReaddirRaised"
| "traverseDirectory JSON_parse isIgnored dir Other st = Inl ReaddirRaised"
| "traverseDirectory JSON_parse isIgnored dir StatFails st = Inl ReaddirRaised"
| "traverseEntries JSON_parse isIgnored dir [] st = Inr st"
| "traverseEntries JSON_parse isIgnored dir ((entry, node) # rest) st =
     (let fullPath = path_join dir entry;
          relativePath = path_relative (rootPath (fst st)) fullPath
      in case isIgnored relativePath of
           None \<Rightarrow> Inl IgnoresRaised
         | Some ignored \<Rightarrow>
             if ignored then traverseEntries JSON_parse isIgnored dir rest st
             else
               (case node of
                  StatFails \<Rightarrow> Inl StatRaised
                | Other \<Rightarrow> traverseEntries JSON_parse isIgnored dir rest st
                | File readFileSync \<Rightarrow>
                    traverseEntries JSON_parse isIgnored dir rest
                      (visit_file JSON_parse fullPath relativePath readFileSync st)
                | _ \<Rightarrow>
                    (case traverseDirectory JSON_parse isIgnored fullPath node
                            ((fst st)\<lparr>directoryCount := directoryCount (fst st) + 1\<rparr>, snd st) of
                       Inl e \<Rightarrow> Inl e
                     | Inr st' \<Rightarrow> traverseEntries JSON_parse isIgnored dir rest st')))"

subsection \<open>\<open>analyzeProject\<close>\<close>

text \<open>A value in a template literal: a string prints as itself, anything else through \<open>ToString\<close>.\<close>

definition to_string :: "(jsval \<Rightarrow> string) \<Rightarrow> jsval \<Rightarrow> string" where
  "to_string ToString v = (case v of JStr s \<Rightarrow> s | _ \<Rightarrow> ToString v)"

definition filesSummary :: "(jsval \<Rightarrow> string) \<Rightarrow> ProjectInfo \<Rightarrow> string" where
  "filesSummary ToString projectInfo =
     js_join (nl @ nl)
       (map (\<lambda>file.
          (let analysis = js_get (aiRatings projectInfo) file
           in file @ '': '' @
              to_string ToString (js_or (get_prop_opt analysis ''explanation'')
                (JStr ''No analysis available''))))
        (files projectInfo))"

definition project_prompt :: "(jsval \<Rightarrow> string) \<Rightarrow> ProjectInfo \<Rightarrow> string" where
  \<open>project_prompt ToString projectInfo = js_join nl
     [''You are a project quality analyst. Analyze this entire project and provide an overall assessment.'',
      [],
      ''Project Statistics:'',
      ''- Total Files: '' @ show_nat (fileCount projectInfo),
      ''- Total Lines of Code: '' @ show_nat (totalLines projectInfo),
      ''- Language Distribution: '' @
        js_join '', '' (map (\<lambda>(lang, count). lang @ '': '' @ show_nat count @ '' files'')
          (languages projectInfo)),
      [],
      ''Individual File Analyses:'',
      filesSummary ToString projectInfo,
      [],
      ''Provide a comprehensive project analysis in this JSON format:'',
      ''{'',
      ''    "overall_rating": <number 1-10>,'',
      ''    "complexity_assessment": "<overall project complexity assessment>",'',
      ''    "project_strengths": "<list key project strengths>",'',
      ''    "project_weaknesses": "<list main areas for improvement>",'',
      ''    "recommendations": "<specific, actionable recommendations for the entire project>"'',
      ''}'']\<close>

definition project_failure :: "string \<Rightarrow> jsval" where
  "project_failure strengths =
     ProjectAnalysis (JNum 0) (JStr ''N/A'') (JStr strengths) (JStr []) (JStr [])"

text \<open>
  The result is declared a \<open>ProjectAnalysis\<close>; on the parsing path it is whatever
  \<open>JSON.parse\<close> returned.
\<close>

definition analyzeProject ::
  "(string \<Rightarrow> jsval option) \<Rightarrow> (jsval \<Rightarrow> string) \<Rightarrow> service \<Rightarrow> ProjectInfo \<Rightarrow> jsval \<times> service" where
  "analyzeProject JSON_parse ToString svc projectInfo =
     (case (if genAI svc then model svc else None) of
        None \<Rightarrow> (project_failure not_initialized, svc)
      | Some generateContent \<Rightarrow>
          (let prompt = project_prompt ToString projectInfo;
               svc' = svc\<lparr>requests := requests svc + 1\<rparr>
           in case generateContent (requests svc) prompt of
                Raises message \<Rightarrow> (project_failure (''Error calling Gemini API: '' @ message), svc')
              | Responds None \<Rightarrow> (project_failure ''No response from Gemini API.'', svc')
              | Responds (Some responseText) \<Rightarrow>
                  (if responseText = [] then (project_failure ''No response from Gemini API.'', svc')
                   else
                     (case extract_json responseText of
                        None \<Rightarrow>
                          (project_failure (''Error calling Gemini API: '' @ type_error_message), svc')
                      | Some jsonStr \<Rightarrow>
                          (case JSON_parse jsonStr of
                             None \<Rightarrow>
                               (project_failure
                                  (''Error parsing response: '' @ js_substring0 responseText 100 @ ''...''),
                                svc')
                           | Some parsed \<Rightarrow> (parsed, svc'))))))"

subsection \<open>\<open>exportProjectInfo\<close>\<close>

text \<open>
  The comparison \<open>v >= k\<close> against a number literal: a number compares as it is, any other
  value through \<open>ToNumber\<close>, whose \<open>None\<close> is NaN (every comparison with NaN is false).
\<close>

definition js_ge :: "(jsval \<Rightarrow> real option) \<Rightarrow> jsval \<Rightarrow> real \<Rightarrow> bool" where
  "js_ge ToNumber v k =
     (case v of
        JNum x \<Rightarrow> k \<le> x
      | _ \<Rightarrow> (case ToNumber v of Some x \<Rightarrow> k \<le> x | None \<Rightarrow> False))"

record fileInfo =
  name :: string
  rating :: jsval
  complexity :: jsval

record filesByQuality =
  high :: "fileInfo list"
  medium :: "fileInfo list"
  low :: "fileInfo list"

text \<open>
  The object \<open>fileInfo\<close> built for one entry of \<open>aiRatings\<close>; \<open>None\<close> is the TypeError of
  reading a property of \<open>null\<close> or \<open>undefined\<close>.
\<close>

definition fileInfo_of :: "string \<times> jsval \<Rightarrow> fileInfo option" where
  "fileInfo_of entry =
     (case entry of (file, v) \<Rightarrow>
        (case (get_prop v ''rating'', get_prop v ''complexity'') of
           (Some r, Some c) \<Rightarrow>
             Some \<lparr>name = file, rating = js_or r (JNum 0), complexity = js_or c (JStr ''O(1)'')\<rparr>
         | _ \<Rightarrow> None))"

text \<open>The body of the \<open>forEach\<close> over \<open>Object.entries(projectInfo.aiRatings)\<close>.\<close>

definition push_file :: "(jsval \<Rightarrow> real option) \<Rightarrow> fileInfo \<Rightarrow> filesByQuality \<Rightarrow> filesByQuality" where
  "push_file ToNumber fi q =
     (if js_ge ToNumber (rating fi) 8 then q\<lparr>high := high q @ [fi]\<rparr>
      else if js_ge ToNumber (rating fi) 4 then q\<lparr>medium := medium q @ [fi]\<rparr>
      else q\<lparr>low := low q @ [fi]\<rparr>)"

fun group_files ::
  "(jsval \<Rightarrow> real option) \<Rightarrow> (string \<times> jsval) list \<Rightarrow> filesByQuality \<Rightarrow> filesByQuality option" where
  "group_files ToNumber [] q = Some q"
| "group_files ToNumber (entry # entries) q =
     (case fileInfo_of entry of
        None \<Rightarrow> None
      | Some fi \<Rightarrow> group_files ToNumber entries (push_file ToNumber fi q))"

definition groupByQuality :: "(jsval \<Rightarrow> real option) \<Rightarrow> ProjectInfo \<Rightarrow> filesByQuality option" where
  "groupByQuality ToNumber projectInfo =
     group_files ToNumber (js_entries (aiRatings projectInfo)) \<lparr>high = [], medium = [], low = []\<rparr>"

text \<open>
  \<open>Date.now() / 1000 - (Date.now() / 1000 - projectInfo.elapsedTime)\<close>, the two readings of
  the clock being \<open>now1\<close> and \<open>now2\<close>.
\<close>

definition sessionTime :: "real \<Rightarrow> real \<Rightarrow> ProjectInfo \<Rightarrow> real" where
  "sessionTime now1 now2 projectInfo = now1 / 1000 - (now2 / 1000 - elapsedTime projectInfo)"

text \<open>
  What the report prints, before it is laid out as text: the verdict on the project, the
  two durations, the statistics and the three buckets. \<open>None\<close> is a TypeError raised in
  the callback (the verdict is \<open>null\<close>, or an entry of \<open>aiRatings\<close> is).
\<close>

record report =
  projectAnalysis :: jsval
  analysisDuration :: real
  sessionTimePrinted :: real
  totalFilesPrinted :: nat
  totalLinesPrinted :: nat
  languagesPrinted :: "(string \<times> nat) list"
  filesByQualityPrinted :: filesByQuality

definition exportProjectInfo ::
  "(string \<Rightarrow> jsval option) \<Rightarrow> (jsval \<Rightarrow> string) \<Rightarrow> (jsval \<Rightarrow> real option) \<Rightarrow> real \<Rightarrow> real
     \<Rightarrow> service \<Rightarrow> ProjectInfo \<Rightarrow> report option \<times> service" where
  "exportProjectInfo JSON_parse ToString ToNumber now1 now2 svc projectInfo =
     (case analyzeProject JSON_parse ToString svc projectInfo of
        (analysis, svc') \<Rightarrow>
          (case get_prop analysis ''overall_rating'' of
             None \<Rightarrow> (None, svc')
           | Some r \<Rightarrow>
               (case groupByQuality ToNumber projectInfo of
                  None \<Rightarrow> (None, svc')
                | Some q \<Rightarrow>
                    (Some \<lparr>projectAnalysis = analysis,
                           analysisDuration = elapsedTime projectInfo,
                           sessionTimePrinted = sessionTime now1 now2 projectInfo,
                           totalFilesPrinted = fileCount projectInfo,
                           totalLinesPrinted = totalLines projectInfo,
                           languagesPrinted = languages projectInfo,
                           filesByQualityPrinted = q\<rparr>, svc'))))"

subsection \<open>\<open>createIgnoreFilter\<close> and the command\<close>

text \<open>
  The package \<open>ignore\<close> is the parameter \<open>ignores\<close>: what \<open>ig.ignores\<close> does on a path for
  an instance holding the given pattern sources. It answers \<open>Some b\<close> or raises (\<open>None\<close>),
  as the package does on the empty path and on a path made of dots only. The source adds
  the text of \<open>.gitignore\<close> when the file can be read, then the two default patterns.
\<close>

definition read_gitignore :: "fsnode \<Rightarrow> string option" where
  "read_gitignore rootNode =
     (case rootNode of
        Dir entries \<Rightarrow>
          (case map_of entries ''.gitignore'' of
             Some (File (Some gitignoreContent)) \<Rightarrow> Some gitignoreContent
           | _ \<Rightarrow> None)
      | _ \<Rightarrow> None)"

definition createIgnoreFilter ::
  "(string list \<Rightarrow> string \<Rightarrow> bool option) \<Rightarrow> fsnode \<Rightarrow> string \<Rightarrow> bool option" where
  "createIgnoreFilter ignores rootNode =
     ignores ((case read_gitignore rootNode of Some gitignoreContent \<Rightarrow> [gitignoreContent] | None \<Rightarrow> [])
              @ [''.venv/'', ''.env/''])"

text \<open>The record the command starts from.\<close>

definition initial_info :: "string \<Rightarrow> ProjectInfo" where
  "initial_info rootDir =
     \<lparr>projectName = path_basename rootDir, rootPath = rootDir, fileCount = 0, directoryCount = 0,
      totalLines = 0, languages = [], elapsedTime = 0, files = [], aiRatings = empty_object\<rparr>"

datatype command_error = NoWorkspace | WalkRaised walk_error

text \<open>
  The handler of \<open>extension.analyzeProject\<close>: the first workspace folder, the traversal,
  the report. It gives back the record as the traversal left it, what the report prints
  and the service.
\<close>

definition analyzeProjectCommand ::
  "(string \<Rightarrow> jsval option) \<Rightarrow> (jsval \<Rightarrow> string) \<Rightarrow> (jsval \<Rightarrow> real option)
     \<Rightarrow> (string list \<Rightarrow> string \<Rightarrow> bool option) \<Rightarrow> real \<Rightarrow> real \<Rightarrow> service
     \<Rightarrow> (string \<times> fsnode) list
     \<Rightarrow> command_error + ProjectInfo \<times> report option \<times> service" where
  "analyzeProjectCommand JSON_parse ToString ToNumber ignores now1 now2 svc workspaceFolders =
     (case workspaceFolders of
        [] \<Rightarrow> Inl NoWorkspace
      | (rootDir, node) # others \<Rightarrow>
          (let projectInfo = initial_info rootDir;
               isIgnored = createIgnoreFilter ignores node
           in case traverseDirectory JSON_parse isIgnored rootDir node (projectInfo, svc) of
                Inl e \<Rightarrow> Inl (WalkRaised e)
              | Inr (projectInfo', svc') \<Rightarrow>
                  (case exportProjectInfo JSON_parse ToString ToNumber now1 now2 svc' projectInfo' of
                     (r, svc'') \<Rightarrow> Inr (projectInfo', r, svc''))))"

subsection \<open>Trees the traversal can list\<close>

text \<open>
  A tree in which \<open>statSync\<close> succeeds on every entry and \<open>readdirSync\<close> on every
  directory. Files that cannot be read are allowed.
\<close>

fun readable_node :: "fsnode \<Rightarrow> bool"
and readable_entries :: "(string \<times> fsnode) list \<Rightarrow> bool" where
  "readable_node (File c) = True"
| "readable_node (Dir entries) = readable_entries entries"
| "readable_node UnreadableDir = False"
| "readable_node Other = True"
| "readable_node StatFails = False"
| "readable_entries [] = True"
| "readable_entries ((entry, node) # rest) = (readable_node node \<and> readable_entries rest)"

subsection \<open>The tree without its ignored entries\<close>

text \<open>
  \<open>prune_entries\<close> removes from a listing every entry whose path relative to the
  workspace root the predicate ignores (it answers \<open>Some True\<close>), whatever the entry is,
  and does the same inside every directory it keeps.
\<close>

fun prune_node :: "(string \<Rightarrow> bool option) \<Rightarrow> string \<Rightarrow> string \<Rightarrow> fsnode \<Rightarrow> fsnode"
and prune_entries ::
  "(string \<Rightarrow> bool option) \<Rightarrow> string \<Rightarrow> string \<Rightarrow> (string \<times> fsnode) list
     \<Rightarrow> (string \<times> fsnode) list"
where
  "prune_node isIgnored rootDir dir (Dir entries) = Dir (prune_entries isIgnored rootDir dir entries)"
| "prune_node isIgnored rootDir dir (File c) = File c"
| "prune_node isIgnored rootDir dir UnreadableDir = UnreadableDir"
| "prune_node isIgnored rootDir dir Other = Other"
| "prune_node isIgnored rootDir dir StatFails = StatFails"
| "prune_entries isIgnored rootDir dir [] = []"
| "prune_entries isIgnored rootDir dir ((entry, node) # rest) =
     (if isIgnored (path_relative rootDir (path_join dir entry)) = Some True
      then prune_entries isIgnored rootDir dir rest
      else (entry, prune_node isIgnored rootDir (path_join dir entry) node)
           # prune_entries isIgnored rootDir dir rest)"

subsection \<open>Example inputs\<close>

text \<open>
  A service that was never initialized, a \<open>JSON.parse\<close> that accepts nothing, a predicate
  that ignores nothing and one that ignores the entry \<open>node_modules\<close> of the root.
\<close>

definition service_off :: service where
  "service_off = \<lparr>genAI = False, model = None, requests = 0\<rparr>"

definition never_parses :: "string \<Rightarrow> jsval option" where
  "never_parses s = None"

definition ignores_nothing :: "string \<Rightarrow> bool option" where
  "ignores_nothing relativePath = Some False"

definition ignores_node_modules :: "string \<Rightarrow> bool option" where
  "ignores_node_modules relativePath = Some (relativePath = ''node_modules'')"

text \<open>
  A matcher that ignores nothing and raises where the package \<open>ignore\<close> does on a path
  under the root: on the empty path and on a path made of dots only.
\<close>

definition rejects_dots :: "string \<Rightarrow> bool option" where
  "rejects_dots relativePath = (if list_all (\<lambda>c. c = CHR ''.'') relativePath then None else Some False)"

text \<open>
  A service that answers every request with the same text. A \<open>JSON.parse\<close> cut down to
  the three JSON texts of the examples, which it parses as \<open>JSON.parse\<close> does; on every
  other text it raises, as \<open>JSON.parse\<close> does on the other texts the examples hand to it.
  Two responses: an object in a fence, and an object in a fence whose closing fence is
  followed at once by a backtick and \<open>json\<close>.
\<close>

definition service_answering :: "string \<Rightarrow> service" where
  "service_answering responseText =
     \<lparr>genAI = True, model = Some (\<lambda>n prompt. Responds (Some responseText)), requests = 0\<rparr>"

definition parses_example :: "string \<Rightarrow> jsval option" where
  \<open>parses_example jsonStr =
     (if jsonStr = ''{"rating":7}'' then Some (JObj [(''rating'', JNum 7)])
      else if jsonStr = ''{"rating":9}'' then Some (JObj [(''rating'', JNum 9)])
      else if jsonStr = ''{"rating":7,"complexity":"O(n)","explanation":"fine","suggestions":"none"}''
      then Some (JObj [(''rating'', JNum 7), (''complexity'', JStr ''O(n)''),
                       (''explanation'', JStr ''fine''), (''suggestions'', JStr ''none'')])
      else None)\<close>

definition fenced_answer :: string where
  \<open>fenced_answer =
     ''```json'' @ nl
     @ ''{"rating":7,"complexity":"O(n)","explanation":"fine","suggestions":"none"}'' @ nl
     @ ''```''\<close>

definition four_backticks :: string where
  \<open>four_backticks = ''```json'' @ nl @ ''{"rating":7}'' @ nl @ ''````json''\<close>


lemma split_go_nonempty: "split_go sep s \<noteq> []"
  by (induction sep s rule: split_go.induct) (simp_all split: list.splits)

lemma split_go_no_prefix:
  "\<not> prefix sep (c # cs) \<Longrightarrow>
     split_go sep (c # cs) = (c # hd (split_go sep cs)) # tl (split_go sep cs)"
  using split_go_nonempty[of sep cs] by (cases "split_go sep cs") simp_all

subsection \<open>Lines\<close>

lemma split_go_single_length: "length (split_go [x] s) = Suc (count_list s x)"
  by (induction s) (auto simp: split_go_nonempty split: list.splits)

lemma js_split_nl_length: "length (js_split s nl) = Suc (count_list s (CHR 0x0A))"
  by (simp add: js_split_def nl_def split_go_single_length)

lemma totalLines_visit_file:
  "totalLines (fst (visit_file JSON_parse fullPath relativePath c (projectInfo, svc)))
     = totalLines projectInfo + countLines c"
  by (simp add: visit_file_def Let_def split: option.splits prod.splits)

lemma js_join_Cons_nonempty: "ys \<noteq> [] \<Longrightarrow> js_join sep (x # ys) = x @ sep @ js_join sep ys"
  by (cases ys) simp_all

lemma js_join_cons_head: "js_join sep ((c # seg) # segs) = c # js_join sep (seg # segs)"
  by (cases segs) simp_all

lemma join_split_single: "js_join [x] (split_go [x] s) = s"
proof (induction s)
  case Nil
  then show ?case by simp
next
  case (Cons c cs)
  obtain seg segs where r: "split_go [x] cs = seg # segs"
    using split_go_nonempty[of "[x]" cs] by (cases "split_go [x] cs") auto
  show ?case
  proof (cases "x = c")
    case True
    with Cons.IH show ?thesis by (simp add: js_join_Cons_nonempty split_go_nonempty)
  next
    case False
    with Cons.IH r show ?thesis by (simp add: js_join_cons_head)
  qed
qed

lemma split_single_no_separator: "x \<notin> set (concat (split_go [x] s))"
proof (induction s)
  case Nil
  then show ?case by simp
next
  case (Cons c cs)
  obtain seg segs where r: "split_go [x] cs = seg # segs"
    using split_go_nonempty[of "[x]" cs] by (cases "split_go [x] cs") auto
  with Cons.IH show ?case by auto
qed

lemma js_split_nl_segments:
  "js_join nl (js_split s nl) = s" "CHR 0x0A \<notin> set (concat (js_split s nl))"
  using split_single_no_separator[of "CHR 0x0A" s]
  by (simp_all add: js_split_def nl_def join_split_single)

text \<open>
  C6. For a file that is read, \<open>countLines\<close> is the number of segments the line feeds
  cut the text into: the segments hold no line feed, joined by line feeds they are the
  text, and there is one more of them than there are line feeds. That is 3 for
  \<^verbatim>\<open>a\nb\nc\<close>, 1 for the empty text and 2 for \<^verbatim>\<open>a\n\<close>. The walker adds exactly that
  number to \<open>totalLines\<close>.
\<close>

theorem countLines_segments:
  "countLines (Some fileContent) = length (js_split fileContent nl)
   \<and> js_join nl (js_split fileContent nl) = fileContent
   \<and> CHR 0x0A \<notin> set (concat (js_split fileContent nl))
   \<and> length (js_split fileContent nl) = Suc (count_list fileContent (CHR 0x0A))
   \<and> countLines (Some (''a'' @ nl @ ''b'' @ nl @ ''c'')) = 3
   \<and> countLines (Some []) = 1
   \<and> countLines (Some (''a'' @ nl)) = 2
   \<and> totalLines (fst (visit_file JSON_parse fullPath relativePath (Some fileContent) (projectInfo, svc)))
       = totalLines projectInfo + length (js_split fileContent nl)"
  using js_split_nl_segments(2)[of fileContent]
  by (simp add: countLines_def js_split_nl_length totalLines_visit_file js_split_nl_segments(1))
     (simp add: nl_def)

subsection \<open>Invariants of the traversal\<close>

text \<open>
  Whatever a visited file and an entered directory preserve, a traversal that returns
  preserves.
\<close>

lemma traverse_invariant:
  assumes visit: "\<And>fullPath relativePath c st. I st \<Longrightarrow> I (visit_file JSON_parse fullPath relativePath c st)"
      and enter: "\<And>st. I st \<Longrightarrow> I ((fst st)\<lparr>directoryCount := directoryCount (fst st) + 1\<rparr>, snd st)"
  shows "traverseDirectory JSON_parse isIgnored dir node st = Inr st' \<Longrightarrow> I st \<Longrightarrow> I st'"
    and "traverseEntries JSON_parse isIgnored dir entries st = Inr st' \<Longrightarrow> I st \<Longrightarrow> I st'"
  using assms
proof (induction JSON_parse isIgnored dir node st and JSON_parse isIgnored dir entries st
       arbitrary: st' and st' rule: traverseDirectory_traverseEntries.induct)
  case (7 JSON_parse isIgnored dir entry node rest st)
  define fullPath where "fullPath = path_join dir entry"
  define relativePath where "relativePath = path_relative (rootPath (fst st)) fullPath"
  note IH = "7.IH"[OF fullPath_def relativePath_def]
  note run = "7.prems"(1)[unfolded traverseEntries.simps Let_def, folded fullPath_def, folded relativePath_def]
  note inv = "7.prems"(2)
  note visit = "7.prems"(3)
  note enter = "7.prems"(4)
  show ?case
  proof (cases "isIgnored relativePath")
    case None
    with run show ?thesis by simp
  next
    case (Some ignored)
    note ig = Some
    show ?thesis
    proof (cases ignored)
      case True
      with run ig have "traverseEntries JSON_parse isIgnored dir rest st = Inr st'" by simp
      from IH(1)[OF ig True this inv visit enter] show ?thesis .
    next
      case False
      show ?thesis
      proof (cases node)
        case (File c)
        with run ig False have
          a: "traverseEntries JSON_parse isIgnored dir rest
                (visit_file JSON_parse fullPath relativePath c st) = Inr st'" by simp
        from IH(2)[OF ig False File a visit[OF inv] visit enter] show ?thesis .
      next
        case (Dir sub)
        with run ig False obtain st1 where
          a: "traverseDirectory JSON_parse isIgnored fullPath node
                ((fst st)\<lparr>directoryCount := directoryCount (fst st) + 1\<rparr>, snd st) = Inr st1"
          and b: "traverseEntries JSON_parse isIgnored dir rest st1 = Inr st'"
          by (auto split: sum.splits)
        have "I st1" using IH(3)[OF ig False Dir a enter[OF inv] visit enter] .
        from IH(4)[OF ig False Dir a b this visit enter] show ?thesis .
      next
        case UnreadableDir
        with run ig False show ?thesis by simp
      next
        case Other
        with run ig False have "traverseEntries JSON_parse isIgnored dir rest st = Inr st'" by simp
        from IH(7)[OF ig False Other this inv visit enter] show ?thesis .
      next
        case StatFails
        with run ig False show ?thesis by simp
      qed
    qed
  qed
qed simp_all


subsection \<open>The service that was never initialized\<close>

lemma analyzeContent_unavailable:
  "\<not> genAI svc \<or> model svc = None \<Longrightarrow>
     analyzeContent JSON_parse svc filePath fileContent = (JStr not_initialized, svc)"
  by (auto simp: analyzeContent_def)

lemma snd_visit_file_unavailable:
  "\<not> genAI (snd st) \<or> model (snd st) = None \<Longrightarrow>
     snd (visit_file JSON_parse fullPath relativePath c st) = snd st"
  by (cases st) (auto simp: visit_file_def Let_def analyzeContent_unavailable split: option.splits)

lemma traverse_unavailable:
  assumes "traverseDirectory JSON_parse isIgnored dir node (projectInfo, svc) = Inr (projectInfo', svc')"
      and "\<not> genAI svc \<or> model svc = None"
  shows "svc' = svc"
proof -
  have "snd (projectInfo', svc') = svc"
    by (rule traverse_invariant(1)[where I = "\<lambda>st. snd st = svc", OF _ _ assms(1)])
       (use assms(2) in \<open>simp_all add: snd_visit_file_unavailable\<close>)
  then show ?thesis by simp
qed

text \<open>Three paths of the example workspace \<open>/ws\<close>, evaluated once.\<close>

lemma path_join_ws_a_py: "path_join ''/ws'' ''a.py'' = ''/ws/a.py''"
  by (simp add: path_join_def path_normalize_def path_components_def is_absolute_def js_split_def
      Let_def)

lemma path_relative_ws_a_py: "path_relative ''/ws'' ''/ws/a.py'' = ''a.py''"
  by (simp add: path_relative_def path_components_def js_split_def Let_def)

lemma getLanguage_ws_a_py: "getLanguage ''/ws/a.py'' = ''Python''"
  by (simp add: getLanguage_def path_extname_def path_basename_def path_components_def js_split_def
      language_table_def toLowerCase_def lower_char_def Let_def)

text \<open>
  C3. While \<open>genAI\<close> or \<open>model\<close> is unset, \<open>analyzeContent\<close> and \<open>analyzeProject\<close> return
  their failure value and leave the service as it was: no request is issued, the request
  counter keeps its value, also over a whole traversal. The failure value of
  \<open>analyzeProject\<close> has \<open>overall_rating\<close> 0 and the message in \<open>project_strengths\<close>.
\<close>

theorem service_unavailable_no_request:
  assumes "\<not> genAI svc \<or> model svc = None"
  shows "analyzeContent JSON_parse svc filePath fileContent
           = (JStr ''Gemini API or model not initialized.'', svc)
       \<and> analyzeProject JSON_parse ToString svc projectInfo
           = (ProjectAnalysis (JNum 0) (JStr ''N/A'') (JStr ''Gemini API or model not initialized.'')
                (JStr []) (JStr []), svc)
       \<and> (\<forall>projectInfo' svc'.
             traverseDirectory JSON_parse isIgnored dir node (projectInfo, svc) = Inr (projectInfo', svc')
             \<longrightarrow> requests svc' = requests svc)"
proof (intro conjI allI impI)
  show "analyzeContent JSON_parse svc filePath fileContent
           = (JStr ''Gemini API or model not initialized.'', svc)"
    using analyzeContent_unavailable[OF assms] by (simp add: not_initialized_def)
  show "analyzeProject JSON_parse ToString svc projectInfo
           = (ProjectAnalysis (JNum 0) (JStr ''N/A'') (JStr ''Gemini API or model not initialized.'')
                (JStr []) (JStr []), svc)"
    using assms by (auto simp: analyzeProject_def project_failure_def not_initialized_def)
next
  fix projectInfo' svc'
  assume "traverseDirectory JSON_parse isIgnored dir node (projectInfo, svc) = Inr (projectInfo', svc')"
  from traverse_unavailable[OF this assms] show "requests svc' = requests svc" by simp
qed

theorem service_unavailable_no_request_witness:
  "model \<lparr>genAI = False, model = None, requests = 0\<rparr> = None
   \<and> analyzeContent (\<lambda>s. None) \<lparr>genAI = False, model = None, requests = 0\<rparr> ''/ws/a.py'' ''x''
        = (JStr ''Gemini API or model not initialized.'', \<lparr>genAI = False, model = None, requests = 0\<rparr>)
   \<and> fst (analyzeProject (\<lambda>s. None) (\<lambda>v. []) \<lparr>genAI = False, model = None, requests = 0\<rparr>
            (initial_info ''/ws''))
        = ProjectAnalysis (JNum 0) (JStr ''N/A'') (JStr ''Gemini API or model not initialized.'')
            (JStr []) (JStr [])
   \<and> (\<exists>p. traverseDirectory (\<lambda>s. None) (\<lambda>p. Some False) ''/ws'' (Dir [(''a.py'', File (Some ''x''))])
              (initial_info ''/ws'', \<lparr>genAI = False, model = None, requests = 0\<rparr>)
            = Inr (p, \<lparr>genAI = False, model = None, requests = 0\<rparr>))"
  using service_unavailable_no_request[of "\<lparr>genAI = False, model = None, requests = 0\<rparr>"
      "\<lambda>s. None" "''/ws/a.py''" "''x''" "\<lambda>v. []" "initial_info ''/ws''" "\<lambda>p. Some False" "''/ws''"
      "Dir [(''a.py'', File (Some ''x''))]"]
  by (simp add: path_join_ws_a_py path_relative_ws_a_py getLanguage_ws_a_py Let_def visit_file_def
      initial_info_def)


subsection \<open>The two durations of the report\<close>

lemma elapsedTime_visit_file:
  "elapsedTime (fst (visit_file JSON_parse fullPath relativePath c st)) = elapsedTime (fst st)"
  by (cases st) (simp add: visit_file_def Let_def split: option.splits prod.splits)

lemma traverse_elapsedTime:
  assumes "traverseDirectory JSON_parse isIgnored dir node (projectInfo, svc) = Inr (projectInfo', svc')"
  shows "elapsedTime projectInfo' = elapsedTime projectInfo"
proof -
  have "elapsedTime (fst (projectInfo', svc')) = elapsedTime projectInfo"
    by (rule traverse_invariant(1)[where I = "\<lambda>st. elapsedTime (fst st) = elapsedTime projectInfo",
          OF _ _ assms]) (simp_all add: elapsedTime_visit_file)
  then show ?thesis by simp
qed

lemma command_result:
  assumes "analyzeProjectCommand JSON_parse ToString ToNumber ignores now1 now2 svc workspaceFolders
             = Inr (info, r, svc'')"
  shows "\<exists>rootDir node others svc'.
           workspaceFolders = (rootDir, node) # others
           \<and> traverseDirectory JSON_parse (createIgnoreFilter ignores node) rootDir node
                (initial_info rootDir, svc) = Inr (info, svc')
           \<and> exportProjectInfo JSON_parse ToString ToNumber now1 now2 svc' info = (r, svc'')"
  using assms
  by (auto simp: analyzeProjectCommand_def Let_def split: list.splits sum.splits prod.splits)

lemma export_result:
  assumes "exportProjectInfo JSON_parse ToString ToNumber now1 now2 svc info = (Some r, svc')"
  shows "analysisDuration r = elapsedTime info \<and> sessionTimePrinted r = sessionTime now1 now2 info"
  using assms
  by (auto simp: exportProjectInfo_def split: prod.splits option.splits)

text \<open>
  A run of the command on the example workspace: one Python file of one line, the service
  not initialized, the clock read as \<open>t1\<close> and \<open>t2\<close>.
\<close>

lemma array_index_a_py: "array_index ''a.py'' = None"
  by (simp add: array_index_def is_digit_def)

lemma example_run:
  "analyzeProjectCommand (\<lambda>s. None) (\<lambda>v. []) (\<lambda>v. None) (\<lambda>ps p. Some False) t1 t2
      \<lparr>genAI = False, model = None, requests = 0\<rparr> [(''/ws'', Dir [(''a.py'', File (Some ''x''))])]
   = Inr (\<lparr>projectName = ''ws'', rootPath = ''/ws'', fileCount = 1, directoryCount = 0,
            totalLines = 1, languages = [(''Python'', 1)], elapsedTime = 0, files = [''a.py''],
            aiRatings = \<lparr>own = [(''a.py'', JStr ''Gemini API or model not initialized.'')], proto = None\<rparr>\<rparr>,
          Some \<lparr>projectAnalysis = ProjectAnalysis (JNum 0) (JStr ''N/A'')
                   (JStr ''Gemini API or model not initialized.'') (JStr []) (JStr []),
                analysisDuration = 0,
                sessionTimePrinted = t1 / 1000 - t2 / 1000,
                totalFilesPrinted = 1, totalLinesPrinted = 1, languagesPrinted = [(''Python'', 1)],
                filesByQualityPrinted =
                  \<lparr>high = [], medium = [],
                   low = [\<lparr>name = ''a.py'', rating = JNum 0, complexity = JStr ''O(1)''\<rparr>]\<rparr>\<rparr>,
          \<lparr>genAI = False, model = None, requests = 0\<rparr>)"
  by (simp add: analyzeProjectCommand_def createIgnoreFilter_def
      path_join_ws_a_py path_relative_ws_a_py getLanguage_ws_a_py Let_def visit_file_def
      initial_info_def analyzeContent_def countLines_def js_split_def nl_def count_language_def
      js_set_def empty_object_def not_initialized_def exportProjectInfo_def analyzeProject_def
      project_failure_def ProjectAnalysis_def groupByQuality_def js_entries_def array_index_a_py
      fileInfo_of_def push_file_def js_ge_def js_or_def object_prototype_get_def
      object_prototype_members_def sessionTime_def path_basename_def path_components_def)

text \<open>
  C10. \<open>elapsedTime\<close> is 0 in the record the command creates, a traversal that returns
  leaves it as it was, and the record the report reads is the record the traversal
  returned: neither \<open>analyzeProject\<close> nor \<open>exportProjectInfo\<close> gives a record back. So
  the record of every run that reaches the report has \<open>elapsedTime\<close> 0, and the report
  prints 0 as the analysis duration.
\<close>

theorem elapsedTime_stays_zero:
  "elapsedTime (initial_info rootDir) = 0
   \<and> (\<forall>projectInfo' svc'.
        traverseDirectory JSON_parse isIgnored dir node (projectInfo, svc) = Inr (projectInfo', svc')
        \<longrightarrow> elapsedTime projectInfo' = elapsedTime projectInfo)
   \<and> (\<forall>info r svc''.
        analyzeProjectCommand JSON_parse ToString ToNumber ignores now1 now2 svc workspaceFolders
          = Inr (info, Some r, svc'')
        \<longrightarrow> elapsedTime info = 0 \<and> analysisDuration r = 0
            \<and> (\<exists>rootDir node others svc'.
                  workspaceFolders = (rootDir, node) # others
                  \<and> traverseDirectory JSON_parse (createIgnoreFilter ignores node) rootDir node
                       (initial_info rootDir, svc) = Inr (info, svc')
                  \<and> exportProjectInfo JSON_parse ToString ToNumber now1 now2 svc' info = (Some r, svc'')))"
proof (intro conjI allI impI)
  show "elapsedTime (initial_info rootDir) = 0" by (simp add: initial_info_def)
next
  fix projectInfo' svc'
  assume "traverseDirectory JSON_parse isIgnored dir node (projectInfo, svc) = Inr (projectInfo', svc')"
  then show "elapsedTime projectInfo' = elapsedTime projectInfo" by (rule traverse_elapsedTime)
next
  fix info r svc''
  assume run: "analyzeProjectCommand JSON_parse ToString ToNumber ignores now1 now2 svc workspaceFolders
          = Inr (info, Some r, svc'')"
  from command_result[OF run] obtain rootDir node others svc' where
    w: "workspaceFolders = (rootDir, node) # others"
    and t: "traverseDirectory JSON_parse (createIgnoreFilter ignores node) rootDir node
                (initial_info rootDir, svc) = Inr (info, svc')"
    and e: "exportProjectInfo JSON_parse ToString ToNumber now1 now2 svc' info = (Some r, svc'')"
    by blast
  show z: "elapsedTime info = 0" using traverse_elapsedTime[OF t] by (simp add: initial_info_def)
  show "analysisDuration r = 0" using export_result[OF e] z by simp
  show "\<exists>rootDir node others svc'.
                  workspaceFolders = (rootDir, node) # others
                  \<and> traverseDirectory JSON_parse (createIgnoreFilter ignores node) rootDir node
                       (initial_info rootDir, svc) = Inr (info, svc')
                  \<and> exportProjectInfo JSON_parse ToString ToNumber now1 now2 svc' info = (Some r, svc'')"
    using w t e by blast
qed

theorem elapsedTime_stays_zero_witness:
  "\<exists>info r svc''.
     analyzeProjectCommand (\<lambda>s. None) (\<lambda>v. []) (\<lambda>v. None) (\<lambda>ps p. Some False) 1000 2000
        \<lparr>genAI = False, model = None, requests = 0\<rparr> [(''/ws'', Dir [(''a.py'', File (Some ''x''))])]
       = Inr (info, Some r, svc'')
     \<and> files info = [''a.py''] \<and> elapsedTime info = 0 \<and> analysisDuration r = 0"
  using example_run[of 1000 2000]
    elapsedTime_stays_zero[THEN conjunct2, THEN conjunct2, rule_format, OF example_run[of 1000 2000]]
  by simp

text \<open>
  C8. Read with one and the same clock value, the formula
  \<open>Date.now() / 1000 - (Date.now() / 1000 - elapsedTime)\<close> cancels to \<open>elapsedTime\<close>, and
  in every run of the command that prints a report the session time it prints is 0.
\<close>

theorem sessionTime_cancels:
  "sessionTime now now projectInfo = elapsedTime projectInfo
   \<and> (\<forall>info r svc''.
        analyzeProjectCommand JSON_parse ToString ToNumber ignores now now svc workspaceFolders
          = Inr (info, Some r, svc'')
        \<longrightarrow> sessionTimePrinted r = 0)"
proof (intro conjI allI impI)
  show s: "\<And>p. sessionTime now now p = elapsedTime p" by (simp add: sessionTime_def)
  fix info r svc''
  assume run: "analyzeProjectCommand JSON_parse ToString ToNumber ignores now now svc workspaceFolders
          = Inr (info, Some r, svc'')"
  from command_result[OF run] obtain rootDir node svc' where
    t: "traverseDirectory JSON_parse (createIgnoreFilter ignores node) rootDir node
                (initial_info rootDir, svc) = Inr (info, svc')"
    and e: "exportProjectInfo JSON_parse ToString ToNumber now now svc' info = (Some r, svc'')"
    by blast
  have "elapsedTime info = 0" using traverse_elapsedTime[OF t] by (simp add: initial_info_def)
  then show "sessionTimePrinted r = 0" using export_result[OF e] s by simp
qed

theorem sessionTime_cancels_witness:
  "\<exists>info r svc''.
     analyzeProjectCommand (\<lambda>s. None) (\<lambda>v. []) (\<lambda>v. None) (\<lambda>ps p. Some False) 1000 1000
        \<lparr>genAI = False, model = None, requests = 0\<rparr> [(''/ws'', Dir [(''a.py'', File (Some ''x''))])]
       = Inr (info, Some r, svc'')
     \<and> files info = [''a.py''] \<and> sessionTimePrinted r = 0"
  using example_run[of 1000 1000]
    sessionTime_cancels[THEN conjunct2, rule_format, OF example_run[of 1000 1000]]
  by simp


subsection \<open>The quality buckets\<close>

lemma group_files_buckets:
  "group_files ToNumber entries q0 = Some q \<Longrightarrow>
   \<exists>infos. map fileInfo_of entries = map Some infos
     \<and> high q = high q0 @ filter (\<lambda>fi. js_ge ToNumber (rating fi) 8) infos
     \<and> medium q = medium q0 @ filter (\<lambda>fi. \<not> js_ge ToNumber (rating fi) 8 \<and> js_ge ToNumber (rating fi) 4) infos
     \<and> low q = low q0 @ filter (\<lambda>fi. \<not> js_ge ToNumber (rating fi) 8 \<and> \<not> js_ge ToNumber (rating fi) 4) infos"
proof (induction entries arbitrary: q0)
  case Nil
  then show ?case by simp
next
  case (Cons entry entries)
  from Cons.prems obtain fi where fi: "fileInfo_of entry = Some fi"
    and rest: "group_files ToNumber entries (push_file ToNumber fi q0) = Some q"
    by (auto split: option.splits)
  from Cons.IH[OF rest] obtain infos where
    m: "map fileInfo_of entries = map Some infos"
    and h: "high q = high (push_file ToNumber fi q0) @ filter (\<lambda>fi. js_ge ToNumber (rating fi) 8) infos"
    and md: "medium q = medium (push_file ToNumber fi q0) @ filter (\<lambda>fi. \<not> js_ge ToNumber (rating fi) 8 \<and> js_ge ToNumber (rating fi) 4) infos"
    and l: "low q = low (push_file ToNumber fi q0) @ filter (\<lambda>fi. \<not> js_ge ToNumber (rating fi) 8 \<and> \<not> js_ge ToNumber (rating fi) 4) infos"
    by blast
  show ?case
    by (rule exI[of _ "fi # infos"]) (simp add: fi m h md l push_file_def)
qed

lemma fileInfo_of_numeric:
  assumes "fileInfo_of (file, v) = Some fi" and "get_prop v ''rating'' = Some (JNum x)"
  shows "name fi = file \<and> rating fi = JNum x"
  using assms by (auto simp: fileInfo_of_def js_or_def split: option.splits)

text \<open>
  When the report has grouped the entries of \<open>aiRatings\<close>, the three buckets hold one
  \<open>fileInfo\<close> for each entry, and an entry whose rating is the number \<open>x\<close> is in the
  high bucket alone when \<open>x \<ge> 8\<close>, in the medium bucket alone when \<open>4 \<le> x < 8\<close> and
  in the low bucket alone when \<open>x < 4\<close>. In the example, 9 and 8 are high, 5 and 4
  medium, 2 low.
\<close>

lemma quality_buckets:
  assumes "groupByQuality ToNumber projectInfo = Some q"
  shows "length (high q) + length (medium q) + length (low q)
           = length (js_entries (aiRatings projectInfo))
       \<and> (\<forall>file v x. (file, v) \<in> set (js_entries (aiRatings projectInfo))
             \<and> get_prop v ''rating'' = Some (JNum x) \<longrightarrow>
             (\<exists>fi. fileInfo_of (file, v) = Some fi \<and> name fi = file \<and> rating fi = JNum x
                \<and> (8 \<le> x \<longrightarrow> fi \<in> set (high q) \<and> fi \<notin> set (medium q) \<and> fi \<notin> set (low q))
                \<and> (4 \<le> x \<and> x < 8 \<longrightarrow> fi \<notin> set (high q) \<and> fi \<in> set (medium q) \<and> fi \<notin> set (low q))
                \<and> (x < 4 \<longrightarrow> fi \<notin> set (high q) \<and> fi \<notin> set (medium q) \<and> fi \<in> set (low q))))"
proof -
  let ?es = "js_entries (aiRatings projectInfo)"
  let ?hi = "\<lambda>fi. js_ge ToNumber (rating fi) 8"
  let ?mid = "\<lambda>fi. \<not> js_ge ToNumber (rating fi) 8 \<and> js_ge ToNumber (rating fi) 4"
  let ?lo = "\<lambda>fi. \<not> js_ge ToNumber (rating fi) 8 \<and> \<not> js_ge ToNumber (rating fi) 4"
  from assms group_files_buckets[of ToNumber ?es "\<lparr>high = [], medium = [], low = []\<rparr>" q]
  obtain infos where m: "map fileInfo_of ?es = map Some infos"
    and h: "high q = filter ?hi infos" and md: "medium q = filter ?mid infos"
    and l: "low q = filter ?lo infos"
    by (auto simp: groupByQuality_def)
  have len: "length infos = length ?es"
    using arg_cong[OF m, of length] by simp
  have "length (filter ?hi infos) + length (filter ?mid infos) + length (filter ?lo infos)
          = length infos"
    by (induction infos) auto
  then have part1: "length (high q) + length (medium q) + length (low q) = length ?es"
    by (simp add: h md l len)
  have part2: "\<exists>fi. fileInfo_of (f, v) = Some fi \<and> name fi = f \<and> rating fi = JNum x
                \<and> (8 \<le> x \<longrightarrow> fi \<in> set (high q) \<and> fi \<notin> set (medium q) \<and> fi \<notin> set (low q))
                \<and> (4 \<le> x \<and> x < 8 \<longrightarrow> fi \<notin> set (high q) \<and> fi \<in> set (medium q) \<and> fi \<notin> set (low q))
                \<and> (x < 4 \<longrightarrow> fi \<notin> set (high q) \<and> fi \<notin> set (medium q) \<and> fi \<in> set (low q))"
    if mem: "(f, v) \<in> set ?es" and num: "get_prop v ''rating'' = Some (JNum x)" for f v x
  proof -
    from mem have "fileInfo_of (f, v) \<in> set (map fileInfo_of ?es)" by force
    with m obtain fi where fi: "fileInfo_of (f, v) = Some fi" and fin: "fi \<in> set infos"
      by auto
    from fileInfo_of_numeric[OF fi num] have nm: "name fi = f" and rt: "rating fi = JNum x"
      by simp_all
    have ge: "js_ge ToNumber (rating fi) k \<longleftrightarrow> k \<le> x" for k
      by (simp add: rt js_ge_def)
    show ?thesis
      by (rule exI[of _ fi]) (use fi nm rt fin ge in \<open>auto simp: h md l\<close>)
  qed
  from part1 part2 show ?thesis by blast
qed


lemma example_buckets:
  "groupByQuality (\<lambda>v. None)
     ((initial_info ''/ws'')\<lparr>aiRatings :=
        \<lparr>own = [(''a.js'', FileAnalysis (JNum 9) (JStr ''O(n)'') (JStr []) (JStr [])),
                (''b.js'', FileAnalysis (JNum 8) (JStr ''O(n)'') (JStr []) (JStr [])),
                (''c.js'', FileAnalysis (JNum 5) (JStr ''O(n)'') (JStr []) (JStr [])),
                (''d.js'', FileAnalysis (JNum 4) (JStr ''O(n)'') (JStr []) (JStr [])),
                (''e.js'', FileAnalysis (JNum 2) (JStr ''O(n)'') (JStr []) (JStr []))],
         proto = None\<rparr>\<rparr>)
   = Some \<lparr>high = [\<lparr>name = ''a.js'', rating = JNum 9, complexity = JStr ''O(n)''\<rparr>,
                   \<lparr>name = ''b.js'', rating = JNum 8, complexity = JStr ''O(n)''\<rparr>],
           medium = [\<lparr>name = ''c.js'', rating = JNum 5, complexity = JStr ''O(n)''\<rparr>,
                     \<lparr>name = ''d.js'', rating = JNum 4, complexity = JStr ''O(n)''\<rparr>],
           low = [\<lparr>name = ''e.js'', rating = JNum 2, complexity = JStr ''O(n)''\<rparr>]\<rparr>"
  by (simp add: groupByQuality_def js_entries_def array_index_def is_digit_def fileInfo_of_def
      FileAnalysis_def push_file_def js_ge_def js_or_def initial_info_def)

lemma quality_buckets_example:
  "\<exists>q. groupByQuality (\<lambda>v. None)
     ((initial_info ''/ws'')\<lparr>aiRatings :=
        \<lparr>own = [(''a.js'', FileAnalysis (JNum 9) (JStr ''O(n)'') (JStr []) (JStr [])),
                (''b.js'', FileAnalysis (JNum 8) (JStr ''O(n)'') (JStr []) (JStr [])),
                (''c.js'', FileAnalysis (JNum 5) (JStr ''O(n)'') (JStr []) (JStr [])),
                (''d.js'', FileAnalysis (JNum 4) (JStr ''O(n)'') (JStr []) (JStr [])),
                (''e.js'', FileAnalysis (JNum 2) (JStr ''O(n)'') (JStr []) (JStr []))],
         proto = None\<rparr>\<rparr>) = Some q
     \<and> map name (high q) = [''a.js'', ''b.js'']
     \<and> map name (medium q) = [''c.js'', ''d.js'']
     \<and> map name (low q) = [''e.js'']
     \<and> length (high q) + length (medium q) + length (low q) = 5"
  using quality_buckets[OF example_buckets] example_buckets
  by (simp add: js_entries_def array_index_def is_digit_def initial_info_def)


subsection \<open>Parsing the response\<close>

lemma js_includes_iff: "js_includes s sep \<longleftrightarrow> (\<exists>i\<le>length s. prefix sep (drop i s))"
proof (induction s)
  case Nil
  then show ?case by simp
next
  case (Cons c cs)
  show ?case
  proof
    assume "js_includes (c # cs) sep"
    then consider "prefix sep (c # cs)" | "js_includes cs sep" by auto
    then show "\<exists>i\<le>length (c # cs). prefix sep (drop i (c # cs))"
    proof cases
      case 1
      then show ?thesis by (intro exI[of _ 0]) simp
    next
      case 2
      with Cons.IH obtain i where "i \<le> length cs" "prefix sep (drop i cs)" by blast
      then show ?thesis by (intro exI[of _ "Suc i"]) simp
    qed
  next
    assume "\<exists>i\<le>length (c # cs). prefix sep (drop i (c # cs))"
    then obtain i where i: "i \<le> length (c # cs)" "prefix sep (drop i (c # cs))" by blast
    show "js_includes (c # cs) sep"
    proof (cases i)
      case 0
      with i show ?thesis by simp
    next
      case (Suc j)
      with i Cons.IH show ?thesis by auto
    qed
  qed
qed

lemma prefix_take: "prefix us b \<Longrightarrow> length us \<le> n \<Longrightarrow> prefix us (take n b)"
  by (auto simp: prefix_def)

lemma prefix_within:
  assumes "prefix p (a @ b)" and "a \<noteq> []"
  shows "prefix p (a @ take (length p - 1) b)"
proof -
  from assms(1) consider "prefix p a" | us where "p = a @ us" "prefix us b"
    by (auto simp: prefix_append)
  then show ?thesis
  proof cases
    case 1
    then show ?thesis by (simp add: prefix_append)
  next
    case 2
    from assms(2) have "length us \<le> length p - 1" by (cases a) (simp_all add: 2(1))
    from prefix_take[OF 2(2) this] show ?thesis by (simp add: 2(1))
  qed
qed

text \<open>
  Where no occurrence of the separator starts within \<open>xs\<close>, the first segment runs past
  \<open>xs\<close>.
\<close>

lemma split_go_skip:
  assumes "\<forall>i<length xs. \<not> prefix sep (drop i (xs @ ys))"
  shows "split_go sep (xs @ ys) = (xs @ hd (split_go sep ys)) # tl (split_go sep ys)"
  using assms
proof (induction xs)
  case Nil
  then show ?case by (simp add: split_go_nonempty)
next
  case (Cons c cs)
  from Cons.prems have no: "\<not> prefix sep (c # cs @ ys)" by (auto dest: spec[of _ 0])
  have "\<forall>i<length cs. \<not> prefix sep (drop i (cs @ ys))"
  proof (intro allI impI)
    fix i assume "i < length cs"
    with Cons.prems have "\<not> prefix sep (drop (Suc i) ((c # cs) @ ys))" by (auto simp del: drop_Suc_Cons append_Cons)
    then show "\<not> prefix sep (drop i (cs @ ys))" by simp
  qed
  from Cons.IH[OF this] no show ?case by simp
qed

lemma no_start_within:
  assumes "\<not> js_includes (xs @ take (length sep - 1) ys) sep"
  shows "\<forall>i<length xs. \<not> prefix sep (drop i (xs @ ys))"
proof (intro allI impI notI)
  fix i assume i: "i < length xs" and p: "prefix sep (drop i (xs @ ys))"
  from i have d: "drop i (xs @ ys) = drop i xs @ ys" and ne: "drop i xs \<noteq> []" by simp_all
  from prefix_within[OF p[unfolded d] ne]
  have "prefix sep (drop i (xs @ take (length sep - 1) ys))" using i by simp
  moreover have "i \<le> length (xs @ take (length sep - 1) ys)" using i by simp
  ultimately have "js_includes (xs @ take (length sep - 1) ys) sep"
    unfolding js_includes_iff by blast
  with assms show False by simp
qed

lemma split_go_first:
  assumes "sep \<noteq> []" and "\<not> js_includes (pre @ butlast sep) sep"
  shows "split_go sep (pre @ sep @ rest) = pre # split_go sep rest"
proof -
  have "\<not> js_includes (pre @ take (length sep - 1) (sep @ rest)) sep"
    using assms(2) by (simp add: butlast_conv_take)
  then have "\<forall>i<length pre. \<not> prefix sep (drop i (pre @ sep @ rest))"
    by (rule no_start_within)
  from split_go_skip[OF this] have
    "split_go sep (pre @ sep @ rest) = (pre @ hd (split_go sep (sep @ rest))) # tl (split_go sep (sep @ rest))" .
  moreover have "split_go sep (sep @ rest) = [] # split_go sep rest"
    using assms(1) by (cases sep) simp_all
  ultimately show ?thesis by simp
qed

lemma split_go_none:
  assumes "\<not> js_includes s sep" and "sep \<noteq> []"
  shows "split_go sep s = [s]"
  using assms by (induction s) auto

lemma split_go_at_least_two:
  assumes "js_includes s sep" and "sep \<noteq> []"
  shows "\<exists>a b cs. split_go sep s = a # b # cs"
  using assms
proof (induction s)
  case Nil
  then show ?case by simp
next
  case (Cons c cs)
  show ?case
  proof (cases "prefix sep (c # cs)")
    case True
    obtain b bs where "split_go sep (drop (length sep - 1) cs) = b # bs"
      using split_go_nonempty by (cases "split_go sep (drop (length sep - 1) cs)") auto
    with True show ?thesis by simp
  next
    case False
    with Cons.prems have "js_includes cs sep" by simp
    from Cons.IH[OF this Cons.prems(2)] obtain a b bs where "split_go sep cs = a # b # bs" by blast
    with False show ?thesis by simp
  qed
qed

lemma extract_json_returns: "\<exists>jsonStr. extract_json responseText = Some jsonStr"
proof (cases "js_includes responseText fence_json")
  case True
  have ne: "fence_json \<noteq> []" by (simp add: fence_json_def)
  from split_go_at_least_two[OF True ne] obtain a b cs where
    s: "split_go fence_json responseText = a # b # cs" by blast
  obtain f fs where "split_go fence b = f # fs"
    using split_go_nonempty by (cases "split_go fence b") auto
  with s True ne show ?thesis
    by (simp add: extract_json_def js_split_def fence_def)
next
  case False
  then show ?thesis by (simp add: extract_json_def)
qed


lemma js_includes_empty: "js_includes t []"
  by (cases t) simp_all

lemma js_includes_append: "js_includes s sep \<Longrightarrow> js_includes (s @ t) sep"
proof (induction s)
  case Nil
  then show ?case by (simp add: js_includes_empty)
next
  case (Cons c cs)
  from Cons.prems consider "prefix sep (c # cs)" | "js_includes cs sep" by auto
  then show ?case
  proof cases
    case 1
    then have "prefix sep ((c # cs) @ t)" by (rule prefix_prefix)
    then show ?thesis by simp
  next
    case 2
    with Cons.IH show ?thesis by simp
  qed
qed

lemma js_includes_at: "js_includes (pre @ sep @ rest) sep"
  unfolding js_includes_iff by (intro exI[of _ "length pre"]) simp

lemma closing_fence_segment:
  assumes "\<not> prefix ''`json'' post \<and> \<not> prefix ''``json'' post"
  shows "hd (split_go fence_json (fence @ post)) = []
       \<or> (\<exists>x. hd (split_go fence_json (fence @ post)) = fence @ x)"
  using assms by (auto simp: fence_def fence_json_def split: list.splits)

lemma extract_json_fenced:
  assumes h2: "\<not> js_includes (pre @ ''```jso'') fence_json"
      and h3: "\<not> js_includes (body @ ''``'') fence"
      and h4: "\<not> prefix ''`json'' post \<and> \<not> prefix ''``json'' post"
  shows "extract_json (pre @ fence_json @ body @ fence @ post) = Some (js_trim body)"
proof -
  let ?rest = "body @ fence @ post"
  let ?R = "split_go fence_json (fence @ post)"
  have ne: "fence_json \<noteq> []" "fence \<noteq> []" by (simp_all add: fence_json_def fence_def)
  have inc: "js_includes (pre @ fence_json @ ?rest) fence_json" by (rule js_includes_at)
  have "\<not> js_includes (pre @ butlast fence_json) fence_json"
    using h2 by (simp add: fence_json_def)
  from split_go_first[OF ne(1) this]
  have outer: "split_go fence_json (pre @ fence_json @ ?rest) = pre # split_go fence_json ?rest" .
  have "\<not> js_includes (body @ take (length fence - 1) (fence @ post)) fence"
    using h3 by (simp add: fence_def)
  from no_start_within[OF this]
  have nofence: "\<forall>i<length body. \<not> prefix fence (drop i ?rest)" .
  have "prefix fence fence_json" by (simp add: fence_def fence_json_def)
  with nofence have "\<forall>i<length body. \<not> prefix fence_json (drop i ?rest)"
    by (meson prefix_order.trans)
  from split_go_skip[OF this]
  have inner: "split_go fence_json ?rest = (body @ hd ?R) # tl ?R" .
  have nb: "\<not> js_includes body fence"
    using h3 js_includes_append by blast
  have "hd (split_go fence (body @ hd ?R)) = body"
    using closing_fence_segment[OF h4]
  proof
    assume "hd ?R = []"
    then show ?thesis using split_go_none[OF nb ne(2)] by simp
  next
    assume "\<exists>x. hd ?R = fence @ x"
    then obtain x where x: "hd ?R = fence @ x" by blast
    have "\<not> js_includes (body @ butlast fence) fence" using h3 by (simp add: fence_def)
    from split_go_first[OF ne(2) this, of x] show ?thesis by (simp add: x)
  qed
  moreover obtain f fs where ff: "split_go fence (body @ hd ?R) = f # fs"
    using split_go_nonempty by (cases "split_go fence (body @ hd ?R)") auto
  ultimately have "f = body" by simp
  with inc outer inner ff ne show ?thesis
    by (simp add: extract_json_def js_split_def)
qed

lemma js_includes_fence:
  assumes "js_includes s fence_json"
  shows "js_includes s fence"
proof -
  have "prefix fence fence_json" by (simp add: fence_def fence_json_def)
  with assms show ?thesis
    unfolding js_includes_iff by (meson prefix_order.trans)
qed

lemma extract_json_unclosed:
  assumes h2: "\<not> js_includes (pre @ ''```jso'') fence_json"
      and h3: "\<not> js_includes rest fence"
  shows "extract_json (pre @ fence_json @ rest) = Some (js_trim rest)"
proof -
  have ne: "fence_json \<noteq> []" "fence \<noteq> []" by (simp_all add: fence_json_def fence_def)
  have inc: "js_includes (pre @ fence_json @ rest) fence_json" by (rule js_includes_at)
  have "\<not> js_includes (pre @ butlast fence_json) fence_json"
    using h2 by (simp add: fence_json_def)
  from split_go_first[OF ne(1) this]
  have outer: "split_go fence_json (pre @ fence_json @ rest) = pre # split_go fence_json rest" .
  have "\<not> js_includes rest fence_json" using h3 js_includes_fence by blast
  from split_go_none[OF this ne(1)] split_go_none[OF h3 ne(2)] inc outer ne show ?thesis
    by (simp add: extract_json_def js_split_def)
qed

lemma extract_json_unfenced:
  "\<not> js_includes responseText fence_json \<Longrightarrow> extract_json responseText = Some responseText"
  by (simp add: extract_json_def)


lemma analyzeContent_responds:
  assumes "genAI svc" and "model svc = Some generateContent"
      and "generateContent (requests svc) (content_prompt fileContent) = Responds (Some responseText)"
      and "responseText \<noteq> []"
      and "extract_json responseText = Some jsonStr"
  shows "analyzeContent JSON_parse svc filePath fileContent
           = (parse_analysis JSON_parse responseText jsonStr, svc\<lparr>requests := requests svc + 1\<rparr>)"
  using assms by (simp add: analyzeContent_def Let_def)

lemma parse_analysis_failure:
  "JSON_parse jsonStr = None \<Longrightarrow>
     parse_analysis JSON_parse responseText jsonStr
       = FileAnalysis (JNum 0) (JStr ''N/A'')
           (JStr (''Error parsing response: '' @ take 100 responseText @ ''...'')) (JStr [])"
  by (simp add: parse_analysis_def parse_error_def js_substring0_def)

lemma parse_analysis_rating:
  assumes "JSON_parse jsonStr = Some (JObj props)" and "map_of props ''rating'' = Some (JNum x)"
      and "x \<noteq> 0"
  shows "get_prop (parse_analysis JSON_parse responseText jsonStr) ''rating'' = Some (JNum x)"
  using assms by (simp add: parse_analysis_def FileAnalysis_def js_or_def)

lemma parse_analysis_rating_7:
  assumes "JSON_parse jsonStr = Some (JObj props)" and "map_of props ''rating'' = Some (JNum 7)"
  shows "\<exists>c e s. parse_analysis JSON_parse responseText jsonStr = FileAnalysis (JNum 7) c e s"
proof -
  have r: "js_or (JNum 7) (JNum 0) = JNum 7" by (simp add: js_or_def)
  from assms show ?thesis by (auto simp: parse_analysis_def r)
qed

lemma parse_analysis_fields:
  assumes "JSON_parse jsonStr = Some (JObj props)"
      and "map_of props ''rating'' = Some r" and "map_of props ''complexity'' = Some c"
      and "map_of props ''explanation'' = Some e" and "map_of props ''suggestions'' = Some s"
  shows "parse_analysis JSON_parse responseText jsonStr
           = FileAnalysis (js_or r (JNum 0)) (js_or c (JStr ''O(1)'')) (js_or e (JStr []))
               (js_or s (JStr []))"
  using assms by (simp add: parse_analysis_def)

text \<open>
  C4, as amended. Let an initialized service answer the request for a file with a text
  that is not empty. Then \<open>analyzeContent\<close> hands exactly one text to \<open>JSON.parse\<close>. That
  text is the response itself when the response has no marker \<^verbatim>\<open>```json\<close>. When the
  response is \<open>pre\<close>, the first marker \<^verbatim>\<open>```json\<close>, \<open>body\<close>, the first \<^verbatim>\<open>```\<close> after it
  and \<open>post\<close>, and \<open>post\<close> does not begin with one or two backticks and \<open>json\<close>, that text
  is \<open>body\<close> trimmed. When no \<^verbatim>\<open>```\<close> comes after the first marker, it is all the text
  after the marker, trimmed. When \<open>JSON.parse\<close> raises, the result is the object with
  rating 0, complexity \<open>N/A\<close>, no suggestions, and an explanation that holds the first
  100 code units of the whole response. When it returns an object whose \<open>rating\<close> is 7,
  the result is an object of the four fields of \<open>FileAnalysis\<close> with rating 7; when the
  object has the four fields, each field of the result is the field read, or its default
  when that is falsy.

  The claim as stated has no proviso on what follows the closing fence. It fails where
  the closing fence is followed at once by a backtick and \<open>json\<close>: \<open>split\<close> on the marker
  \<^verbatim>\<open>```json\<close> then cuts the response inside the four backticks, the text handed to
  \<open>JSON.parse\<close> keeps a backtick at its end, and a well-formed object with rating 7
  between the fences comes out as the parse failure with rating 0.
\<close>

theorem fenced_response_parsing:
  assumes "genAI svc" and "model svc = Some generateContent"
      and "generateContent (requests svc) (content_prompt fileContent) = Responds (Some responseText)"
      and "responseText \<noteq> []"
  shows "\<exists>jsonStr.
           extract_json responseText = Some jsonStr
         \<and> (js_includes responseText ''```json'' \<or> jsonStr = responseText)
         \<and> (\<forall>pre body post.
               responseText = pre @ ''```json'' @ body @ ''```'' @ post
               \<and> \<not> js_includes (pre @ ''```jso'') ''```json''
               \<and> \<not> js_includes (body @ ''``'') ''```''
               \<and> \<not> prefix ''`json'' post \<and> \<not> prefix ''``json'' post
               \<longrightarrow> jsonStr = js_trim body)
         \<and> (\<forall>pre rest.
               responseText = pre @ ''```json'' @ rest
               \<and> \<not> js_includes (pre @ ''```jso'') ''```json''
               \<and> \<not> js_includes rest ''```''
               \<longrightarrow> jsonStr = js_trim rest)
         \<and> (JSON_parse jsonStr = None \<longrightarrow>
               fst (analyzeContent JSON_parse svc filePath fileContent)
                 = FileAnalysis (JNum 0) (JStr ''N/A'')
                     (JStr (''Error parsing response: '' @ take 100 responseText @ ''...'')) (JStr []))
         \<and> (\<forall>props.
               JSON_parse jsonStr = Some (JObj props) \<and> map_of props ''rating'' = Some (JNum 7)
               \<longrightarrow> (\<exists>c e s. fst (analyzeContent JSON_parse svc filePath fileContent)
                               = FileAnalysis (JNum 7) c e s))
         \<and> (\<forall>props r c e s.
               JSON_parse jsonStr = Some (JObj props)
               \<and> map_of props ''rating'' = Some r \<and> map_of props ''complexity'' = Some c
               \<and> map_of props ''explanation'' = Some e \<and> map_of props ''suggestions'' = Some s
               \<longrightarrow> fst (analyzeContent JSON_parse svc filePath fileContent)
                     = FileAnalysis (js_or r (JNum 0)) (js_or c (JStr ''O(1)'')) (js_or e (JStr []))
                         (js_or s (JStr [])))"
proof -
  from extract_json_returns obtain jsonStr where j: "extract_json responseText = Some jsonStr"
    by blast
  note run = analyzeContent_responds[OF assms j, of JSON_parse filePath]
  have a: "fst (analyzeContent JSON_parse svc filePath fileContent)
             = parse_analysis JSON_parse responseText jsonStr"
    by (simp add: run)
  have b: "js_includes responseText ''```json'' \<or> jsonStr = responseText"
    using j extract_json_unfenced[of responseText] by (auto simp: fence_json_def)
  have c: "jsonStr = js_trim body"
    if "responseText = pre @ ''```json'' @ body @ ''```'' @ post
        \<and> \<not> js_includes (pre @ ''```jso'') ''```json''
        \<and> \<not> js_includes (body @ ''``'') ''```''
        \<and> \<not> prefix ''`json'' post \<and> \<not> prefix ''``json'' post" for pre body post
  proof -
    from that have "extract_json (pre @ fence_json @ body @ fence @ post) = Some (js_trim body)"
      by (intro extract_json_fenced) (simp_all add: fence_json_def fence_def)
    with that j show ?thesis by (simp add: fence_json_def fence_def)
  qed
  have c': "jsonStr = js_trim rest"
    if "responseText = pre @ ''```json'' @ rest
        \<and> \<not> js_includes (pre @ ''```jso'') ''```json''
        \<and> \<not> js_includes rest ''```''" for pre rest
  proof -
    from that have "extract_json (pre @ fence_json @ rest) = Some (js_trim rest)"
      by (intro extract_json_unclosed) (simp_all add: fence_json_def fence_def)
    with that j show ?thesis by (simp add: fence_json_def fence_def)
  qed
  have d: "fst (analyzeContent JSON_parse svc filePath fileContent)
                 = FileAnalysis (JNum 0) (JStr ''N/A'')
                     (JStr (''Error parsing response: '' @ take 100 responseText @ ''...'')) (JStr [])"
    if "JSON_parse jsonStr = None"
    using that by (simp add: a parse_analysis_failure)
  have e: "\<exists>c e s. fst (analyzeContent JSON_parse svc filePath fileContent)
                     = FileAnalysis (JNum 7) c e s"
    if "JSON_parse jsonStr = Some (JObj props) \<and> map_of props ''rating'' = Some (JNum 7)" for props
    using that parse_analysis_rating_7[of JSON_parse jsonStr props responseText] by (simp add: a)
  have f: "fst (analyzeContent JSON_parse svc filePath fileContent)
             = FileAnalysis (js_or r (JNum 0)) (js_or c (JStr ''O(1)'')) (js_or e (JStr []))
                 (js_or s (JStr []))"
    if "JSON_parse jsonStr = Some (JObj props)
        \<and> map_of props ''rating'' = Some r \<and> map_of props ''complexity'' = Some c
        \<and> map_of props ''explanation'' = Some e \<and> map_of props ''suggestions'' = Some s"
    for props r c e s
    using that by (simp add: a parse_analysis_fields)
  show ?thesis
  proof (rule exI[of _ jsonStr], intro conjI allI impI)
    show "extract_json responseText = Some jsonStr" by (rule j)
    show "js_includes responseText ''```json'' \<or> jsonStr = responseText" by (rule b)
  qed (rule c c' d e f, assumption)+
qed

text \<open>
  Two runs: a fenced object with the four fields, and a response that is not JSON.
\<close>

theorem fenced_response_parsing_witness:
  \<open>fst (analyzeContent parses_example (service_answering fenced_answer) ''/ws/a.py'' ''x'')
     = FileAnalysis (JNum 7) (JStr ''O(n)'') (JStr ''fine'') (JStr ''none'')
   \<and> fst (analyzeContent parses_example (service_answering ''not json'') ''/ws/a.py'' ''x'')
     = FileAnalysis (JNum 0) (JStr ''N/A'') (JStr ''Error parsing response: not json...'') (JStr [])\<close>
proof -
  let ?body = \<open>nl @ ''{"rating":7,"complexity":"O(n)","explanation":"fine","suggestions":"none"}'' @ nl\<close>
  let ?s1 = "service_answering fenced_answer"
  let ?s2 = "service_answering ''not json''"
  have i1: "genAI ?s1" "model ?s1 = Some (\<lambda>n prompt. Responds (Some fenced_answer))"
    "(\<lambda>n prompt. Responds (Some fenced_answer)) (requests ?s1) (content_prompt ''x'')
       = Responds (Some fenced_answer)"
    "fenced_answer \<noteq> []"
    by (simp_all add: service_answering_def fenced_answer_def)
  from fenced_response_parsing[OF i1, of parses_example "''/ws/a.py''"] obtain j1 where
    t1: "extract_json fenced_answer = Some j1
         \<and> (js_includes fenced_answer ''```json'' \<or> j1 = fenced_answer)
         \<and> (\<forall>pre body post.
               fenced_answer = pre @ ''```json'' @ body @ ''```'' @ post
               \<and> \<not> js_includes (pre @ ''```jso'') ''```json''
               \<and> \<not> js_includes (body @ ''``'') ''```''
               \<and> \<not> prefix ''`json'' post \<and> \<not> prefix ''``json'' post
               \<longrightarrow> j1 = js_trim body)
         \<and> (\<forall>pre rest.
               fenced_answer = pre @ ''```json'' @ rest
               \<and> \<not> js_includes (pre @ ''```jso'') ''```json''
               \<and> \<not> js_includes rest ''```''
               \<longrightarrow> j1 = js_trim rest)
         \<and> (parses_example j1 = None \<longrightarrow>
               fst (analyzeContent parses_example ?s1 ''/ws/a.py'' ''x'')
                 = FileAnalysis (JNum 0) (JStr ''N/A'')
                     (JStr (''Error parsing response: '' @ take 100 fenced_answer @ ''...'')) (JStr []))
         \<and> (\<forall>props.
               parses_example j1 = Some (JObj props) \<and> map_of props ''rating'' = Some (JNum 7)
               \<longrightarrow> (\<exists>c e s. fst (analyzeContent parses_example ?s1 ''/ws/a.py'' ''x'')
                               = FileAnalysis (JNum 7) c e s))
         \<and> (\<forall>props r c e s.
               parses_example j1 = Some (JObj props)
               \<and> map_of props ''rating'' = Some r \<and> map_of props ''complexity'' = Some c
               \<and> map_of props ''explanation'' = Some e \<and> map_of props ''suggestions'' = Some s
               \<longrightarrow> fst (analyzeContent parses_example ?s1 ''/ws/a.py'' ''x'')
                     = FileAnalysis (js_or r (JNum 0)) (js_or c (JStr ''O(1)'')) (js_or e (JStr []))
                         (js_or s (JStr [])))" ..
  note fenced = t1[THEN conjunct2, THEN conjunct2, THEN conjunct1, rule_format]
  note fields = t1[THEN conjunct2, THEN conjunct2, THEN conjunct2, THEN conjunct2, THEN conjunct2,
      THEN conjunct2, rule_format]
  have "j1 = js_trim ?body"
    by (rule fenced[of "[]" ?body "[]"]) (simp add: fenced_answer_def nl_def)
  then have j1: \<open>j1 = ''{"rating":7,"complexity":"O(n)","explanation":"fine","suggestions":"none"}''\<close>
    by (simp add: js_trim_def is_js_space_def nl_def)
  have "fst (analyzeContent parses_example ?s1 ''/ws/a.py'' ''x'')
          = FileAnalysis (js_or (JNum 7) (JNum 0)) (js_or (JStr ''O(n)'') (JStr ''O(1)''))
              (js_or (JStr ''fine'') (JStr [])) (js_or (JStr ''none'') (JStr []))"
    by (rule fields[of "[(''rating'', JNum 7), (''complexity'', JStr ''O(n)''),
                          (''explanation'', JStr ''fine''), (''suggestions'', JStr ''none'')]"])
       (simp add: j1 parses_example_def)
  then have first: "fst (analyzeContent parses_example ?s1 ''/ws/a.py'' ''x'')
          = FileAnalysis (JNum 7) (JStr ''O(n)'') (JStr ''fine'') (JStr ''none'')"
    by (simp add: js_or_def)
  have i2: "genAI ?s2" "model ?s2 = Some (\<lambda>n prompt. Responds (Some ''not json''))"
    "(\<lambda>n prompt. Responds (Some ''not json'')) (requests ?s2) (content_prompt ''x'')
       = Responds (Some ''not json'')"
    "''not json'' \<noteq> []"
    by (simp_all add: service_answering_def)
  from fenced_response_parsing[OF i2, of parses_example "''/ws/a.py''"] obtain j2 where
    t2: "extract_json ''not json'' = Some j2
         \<and> (js_includes ''not json'' ''```json'' \<or> j2 = ''not json'')
         \<and> (\<forall>pre body post.
               ''not json'' = pre @ ''```json'' @ body @ ''```'' @ post
               \<and> \<not> js_includes (pre @ ''```jso'') ''```json''
               \<and> \<not> js_includes (body @ ''``'') ''```''
               \<and> \<not> prefix ''`json'' post \<and> \<not> prefix ''``json'' post
               \<longrightarrow> j2 = js_trim body)
         \<and> (\<forall>pre rest.
               ''not json'' = pre @ ''```json'' @ rest
               \<and> \<not> js_includes (pre @ ''```jso'') ''```json''
               \<and> \<not> js_includes rest ''```''
               \<longrightarrow> j2 = js_trim rest)
         \<and> (parses_example j2 = None \<longrightarrow>
               fst (analyzeContent parses_example ?s2 ''/ws/a.py'' ''x'')
                 = FileAnalysis (JNum 0) (JStr ''N/A'')
                     (JStr (''Error parsing response: '' @ take 100 ''not json'' @ ''...'')) (JStr []))
         \<and> (\<forall>props.
               parses_example j2 = Some (JObj props) \<and> map_of props ''rating'' = Some (JNum 7)
               \<longrightarrow> (\<exists>c e s. fst (analyzeContent parses_example ?s2 ''/ws/a.py'' ''x'')
                               = FileAnalysis (JNum 7) c e s))
         \<and> (\<forall>props r c e s.
               parses_example j2 = Some (JObj props)
               \<and> map_of props ''rating'' = Some r \<and> map_of props ''complexity'' = Some c
               \<and> map_of props ''explanation'' = Some e \<and> map_of props ''suggestions'' = Some s
               \<longrightarrow> fst (analyzeContent parses_example ?s2 ''/ws/a.py'' ''x'')
                     = FileAnalysis (js_or r (JNum 0)) (js_or c (JStr ''O(1)'')) (js_or e (JStr []))
                         (js_or s (JStr [])))" ..
  note plain = t2[THEN conjunct2, THEN conjunct1]
  note failed = t2[THEN conjunct2, THEN conjunct2, THEN conjunct2, THEN conjunct2, THEN conjunct1,
      rule_format]
  from plain have j2: "j2 = ''not json''" by simp
  have second: "fst (analyzeContent parses_example ?s2 ''/ws/a.py'' ''x'')
         = FileAnalysis (JNum 0) (JStr ''N/A'') (JStr ''Error parsing response: not json...'') (JStr [])"
    using failed by (simp add: j2 parses_example_def)
  from first second show ?thesis by simp
qed

text \<open>
  The response \<open>four_backticks\<close> is the marker \<^verbatim>\<open>```json\<close>, a line with the object, the
  fence \<^verbatim>\<open>```\<close> and \<^verbatim>\<open>`json\<close>: the marker is the first one, the fence the first
  \<^verbatim>\<open>```\<close> after it, and the text between them, trimmed, parses to an object with rating 7.
  The code hands \<open>JSON.parse\<close> that text with a line feed and a backtick after it, and
  returns the parse failure.
\<close>

theorem fenced_response_parsing_counterexample:
  \<open>four_backticks = [] @ ''```json'' @ (nl @ ''{"rating":7}'' @ nl) @ ''```'' @ ''`json''
   \<and> js_includes four_backticks ''```json''
   \<and> \<not> js_includes ([] @ ''```jso'') ''```json''
   \<and> \<not> js_includes ((nl @ ''{"rating":7}'' @ nl) @ ''``'') ''```''
   \<and> parses_example (js_trim (nl @ ''{"rating":7}'' @ nl)) = Some (JObj [(''rating'', JNum 7)])
   \<and> extract_json four_backticks = Some (''{"rating":7}'' @ nl @ ''`'')
   \<and> parses_example (''{"rating":7}'' @ nl @ ''`'') = None
   \<and> fst (analyzeContent parses_example (service_answering four_backticks) ''/ws/a.py'' ''x'')
     = FileAnalysis (JNum 0) (JStr ''N/A'')
         (JStr (''Error parsing response: '' @ four_backticks @ ''...'')) (JStr [])\<close>
  by (simp add: four_backticks_def nl_def js_trim_def is_js_space_def parses_example_def
      extract_json_def fence_json_def fence_def js_split_def analyzeContent_def
      service_answering_def Let_def parse_analysis_def parse_error_def js_substring0_def)


subsection \<open>The loop, one entry at a time\<close>

lemma traverseEntries_Cons:
  "traverseEntries JSON_parse isIgnored dir ((entry, node) # rest) st =
     (case isIgnored (path_relative (rootPath (fst st)) (path_join dir entry)) of
        None \<Rightarrow> Inl IgnoresRaised
      | Some ignored \<Rightarrow>
          if ignored then traverseEntries JSON_parse isIgnored dir rest st
          else
            (case node of
               StatFails \<Rightarrow> Inl StatRaised
             | Other \<Rightarrow> traverseEntries JSON_parse isIgnored dir rest st
             | File readFileSync \<Rightarrow>
                 traverseEntries JSON_parse isIgnored dir rest
                   (visit_file JSON_parse (path_join dir entry)
                      (path_relative (rootPath (fst st)) (path_join dir entry)) readFileSync st)
             | _ \<Rightarrow>
                 (case traverseDirectory JSON_parse isIgnored (path_join dir entry) node
                         ((fst st)\<lparr>directoryCount := directoryCount (fst st) + 1\<rparr>, snd st) of
                    Inl e \<Rightarrow> Inl e
                  | Inr st' \<Rightarrow> traverseEntries JSON_parse isIgnored dir rest st')))"
  by (simp only: traverseEntries.simps Let_def)

text \<open>
  What can end a run is the listing of a directory, the ignore test and the stat of an
  entry. Where these three succeed the traversal returns, whatever files cannot be read
  and whatever the service does.
\<close>

lemma traverse_returns:
  assumes "\<And>relativePath. isIgnored relativePath \<noteq> None"
  shows "readable_node node \<Longrightarrow> (\<exists>es. node = Dir es) \<Longrightarrow>
           \<exists>st'. traverseDirectory JSON_parse isIgnored dir node st = Inr st'"
    and "readable_entries entries \<Longrightarrow>
           \<exists>st'. traverseEntries JSON_parse isIgnored dir entries st = Inr st'"
  using assms
proof (induction JSON_parse isIgnored dir node st and JSON_parse isIgnored dir entries st
       rule: traverseDirectory_traverseEntries.induct)
  case (7 JSON_parse isIgnored dir entry node rest st)
  define fullPath where "fullPath = path_join dir entry"
  define relativePath where "relativePath = path_relative (rootPath (fst st)) fullPath"
  note IH = "7.IH"[OF fullPath_def relativePath_def]
  note eq = traverseEntries_Cons[of JSON_parse isIgnored dir entry node rest st,
      folded fullPath_def, folded relativePath_def]
  from "7.prems"(1) have rn: "readable_node node" and rr: "readable_entries rest" by simp_all
  note total = "7.prems"(2)
  from total[of relativePath] obtain ignored where ig: "isIgnored relativePath = Some ignored"
    by blast
  show ?case
  proof (cases ignored)
    case True
    with IH(1)[OF ig True rr total] ig show ?thesis unfolding eq by simp
  next
    case False
    show ?thesis
    proof (cases node)
      case (File c)
      with ig False IH(2)[OF ig False File rr total] show ?thesis unfolding eq by simp
    next
      case (Dir sub)
      from IH(3)[OF ig False Dir rn _ total] Dir obtain st1 where
        a: "traverseDirectory JSON_parse isIgnored fullPath node
              ((fst st)\<lparr>directoryCount := directoryCount (fst st) + 1\<rparr>, snd st) = Inr st1"
        by blast
      from IH(4)[OF ig False Dir a rr total] obtain st2 where
        "traverseEntries JSON_parse isIgnored dir rest st1 = Inr st2" by blast
      with a ig False Dir show ?thesis unfolding eq by simp
    next
      case UnreadableDir
      with rn show ?thesis by simp
    next
      case Other
      with ig False IH(7)[OF ig False Other rr total] show ?thesis unfolding eq by simp
    next
      case StatFails
      with rn show ?thesis by simp
    qed
  qed
qed simp_all


subsection \<open>Files that cannot be read\<close>

lemma map_of_upsert_same: "map_of (upsert k v xs) k = Some v"
  by (induction xs) auto

lemma map_of_upsert_other: "k' \<noteq> k \<Longrightarrow> map_of (upsert k v xs) k' = map_of xs k'"
  by (induction xs) auto

lemma js_get_js_set_analysis:
  "js_get (js_set obj k (FileAnalysis r c e s)) k = FileAnalysis r c e s"
proof (cases "k = ''__proto__'' \<and> map_of (own obj) k = None \<and> inherits_proto_accessor (proto obj)")
  case True
  then have k: "k = ''__proto__''" by simp
  from True have o: "map_of (own obj) ''__proto__'' = None" and i: "inherits_proto_accessor (proto obj)"
    by (simp_all add: k)
  have v: "is_object_or_null (FileAnalysis r c e s)"
    "inherits_proto_accessor (Some (FileAnalysis r c e s))"
    by (simp_all add: FileAnalysis_def)
  have "js_set obj k (FileAnalysis r c e s) = obj\<lparr>proto := Some (FileAnalysis r c e s)\<rparr>"
    by (simp add: js_set_def k o i v(1))
  then show ?thesis
    by (simp add: js_get_def k o v(2))
next
  case False
  then have "js_set obj k (FileAnalysis r c e s) = obj\<lparr>own := upsert k (FileAnalysis r c e s) (own obj)\<rparr>"
    unfolding js_set_def by (simp only: if_False)
  then show ?thesis by (simp add: js_get_def map_of_upsert_same)
qed

lemma js_get_js_set_plain:
  assumes "k \<noteq> ''__proto__''"
  shows "js_get (js_set obj k v) k = v" and "map_of (own (js_set obj k v)) k = Some v"
  using assms by (simp_all add: js_get_def js_set_def map_of_upsert_same)

lemma visit_unreadable:
  "visit_file JSON_parse fullPath relativePath None (projectInfo, svc) =
     (projectInfo\<lparr>fileCount := fileCount projectInfo + 1,
        languages := count_language (getLanguage fullPath) (languages projectInfo),
        files := files projectInfo @ [relativePath],
        aiRatings := js_set (aiRatings projectInfo) relativePath default_analysis\<rparr>, svc)"
  by (simp add: visit_file_def Let_def countLines_def)

text \<open>
  A file that \<open>readFileSync\<close> cannot read does not stop the loop: the walker counts it,
  appends its relative path to \<open>files\<close>, assigns the default analysis (rating 0,
  complexity \<open>N/A\<close>, explanation \<open>Error processing file\<close>, no suggestions) to
  \<open>aiRatings[relativePath]\<close>, where a read finds it (as an entry of its own unless the
  path is \<open>__proto__\<close>), and goes on with the remaining entries. \<open>analyzeContent\<close> catches
  what the service raises, so it hands no error to the walker.
\<close>

lemma read_failure_recorded:
  assumes "isIgnored (path_relative (rootPath projectInfo) (path_join dir entry)) = Some False"
  shows "\<exists>projectInfo'.
            traverseEntries JSON_parse isIgnored dir ((entry, File None) # rest) (projectInfo, svc)
              = traverseEntries JSON_parse isIgnored dir rest (projectInfo', svc)
          \<and> files projectInfo'
              = files projectInfo @ [path_relative (rootPath projectInfo) (path_join dir entry)]
          \<and> js_get (aiRatings projectInfo') (path_relative (rootPath projectInfo) (path_join dir entry))
              = FileAnalysis (JNum 0) (JStr ''N/A'') (JStr ''Error processing file'') (JStr [])
          \<and> (path_relative (rootPath projectInfo) (path_join dir entry) \<noteq> ''__proto__'' \<longrightarrow>
                map_of (own (aiRatings projectInfo'))
                  (path_relative (rootPath projectInfo) (path_join dir entry))
                = Some (FileAnalysis (JNum 0) (JStr ''N/A'') (JStr ''Error processing file'') (JStr [])))
          \<and> fileCount projectInfo' = fileCount projectInfo + 1
          \<and> totalLines projectInfo' = totalLines projectInfo"
proof -
  let ?rel = "path_relative (rootPath projectInfo) (path_join dir entry)"
  let ?p = "projectInfo\<lparr>fileCount := fileCount projectInfo + 1,
        languages := count_language (getLanguage (path_join dir entry)) (languages projectInfo),
        files := files projectInfo @ [?rel],
        aiRatings := js_set (aiRatings projectInfo) ?rel default_analysis\<rparr>"
  have step: "traverseEntries JSON_parse isIgnored dir ((entry, File None) # rest) (projectInfo, svc)
              = traverseEntries JSON_parse isIgnored dir rest (?p, svc)"
    unfolding traverseEntries_Cons using assms by (simp add: visit_unreadable)
  have get: "js_get (js_set (aiRatings projectInfo) ?rel default_analysis) ?rel
      = FileAnalysis (JNum 0) (JStr ''N/A'') (JStr ''Error processing file'') (JStr [])"
    by (simp add: default_analysis_def js_get_js_set_analysis)
  have entry: "map_of (own (js_set (aiRatings projectInfo) ?rel default_analysis)) ?rel
      = Some (FileAnalysis (JNum 0) (JStr ''N/A'') (JStr ''Error processing file'') (JStr []))"
    if "?rel \<noteq> ''__proto__''"
    using js_get_js_set_plain(2)[OF that] by (simp add: default_analysis_def)
  show ?thesis
    by (rule exI[of _ ?p]) (simp add: step get entry del: traverseEntries.simps)
qed

lemma path_join_ws_b_py: "path_join ''/ws'' ''b.py'' = ''/ws/b.py''"
  by (simp add: path_join_def path_normalize_def path_components_def is_absolute_def js_split_def
      Let_def)

lemma path_relative_ws_b_py: "path_relative ''/ws'' ''/ws/b.py'' = ''b.py''"
  by (simp add: path_relative_def path_components_def js_split_def Let_def)

lemma getLanguage_ws_b_py: "getLanguage ''/ws/b.py'' = ''Python''"
  by (simp add: getLanguage_def path_extname_def path_basename_def path_components_def js_split_def
      language_table_def toLowerCase_def lower_char_def Let_def)

text \<open>A file that cannot be read, listed before one that can: the walk goes on.\<close>

lemma example_unreadable_walk:
  "traverseDirectory never_parses ignores_nothing ''/ws''
      (Dir [(''a.py'', File None), (''b.py'', File (Some ''x''))])
      (initial_info ''/ws'', service_off)
   = Inr (\<lparr>projectName = ''ws'', rootPath = ''/ws'', fileCount = 2, directoryCount = 0,
            totalLines = 1, languages = [(''Python'', 2)], elapsedTime = 0,
            files = [''a.py'', ''b.py''],
            aiRatings =
              \<lparr>own = [(''a.py'', FileAnalysis (JNum 0) (JStr ''N/A'') (JStr ''Error processing file'') (JStr [])),
                      (''b.py'', JStr ''Gemini API or model not initialized.'')],
               proto = None\<rparr>\<rparr>,
          service_off)"
  by (simp add: path_join_ws_a_py path_relative_ws_a_py getLanguage_ws_a_py
      path_join_ws_b_py path_relative_ws_b_py getLanguage_ws_b_py Let_def visit_file_def
      initial_info_def analyzeContent_def countLines_def js_split_def nl_def count_language_def
      js_set_def empty_object_def not_initialized_def default_analysis_def service_off_def
      ignores_nothing_def path_basename_def path_components_def)

lemma path_join_ws_broken: "path_join ''/ws'' ''broken'' = ''/ws/broken''"
  by (simp add: path_join_def path_normalize_def path_components_def is_absolute_def js_split_def
      Let_def)

lemma path_relative_ws_broken: "path_relative ''/ws'' ''/ws/broken'' = ''broken''"
  by (simp add: path_relative_def path_components_def js_split_def Let_def)

lemma path_join_ws_dots: "path_join ''/ws'' ''...'' = ''/ws/...''"
  by (simp add: path_join_def path_normalize_def path_components_def is_absolute_def js_split_def
      Let_def)

lemma path_relative_ws_dots: "path_relative ''/ws'' ''/ws/...'' = ''...''"
  by (simp add: path_relative_def path_components_def js_split_def Let_def)

text \<open>
  C5. The claim is that no failure on a single file ends the traversal. The walker
  catches what \<open>readFileSync\<close> raises, and \<open>analyzeContent\<close> what the service raises, but
  the calls \<open>isIgnored(relativePath)\<close> and \<open>fs.statSync(fullPath)\<close> of the loop body stand
  outside every \<open>try\<close>. So one entry ends the run: in the first run below a link
  \<open>broken\<close> whose target is missing, on which \<open>statSync\<close> raises, is listed before the
  file \<open>a.py\<close>; in the second a file named \<open>...\<close>, on which the matcher raises, is. Both
  runs end with the error, \<open>a.py\<close> is never visited and nothing is recorded.
\<close>

theorem entry_failure_aborts:
  "traverseDirectory never_parses ignores_nothing ''/ws''
      (Dir [(''broken'', StatFails), (''a.py'', File (Some ''x''))])
      (initial_info ''/ws'', service_off)
   = Inl StatRaised
   \<and> traverseDirectory never_parses rejects_dots ''/ws''
      (Dir [(''...'', File (Some ''x'')), (''a.py'', File (Some ''x''))])
      (initial_info ''/ws'', service_off)
   = Inl IgnoresRaised"
  by (simp add: path_join_ws_broken path_relative_ws_broken path_join_ws_dots path_relative_ws_dots
      Let_def initial_info_def ignores_nothing_def rejects_dots_def)


subsection \<open>Ignored entries\<close>

lemma rootPath_visit_file:
  "rootPath (fst (visit_file JSON_parse fullPath relativePath c st)) = rootPath (fst st)"
  by (cases st) (simp add: visit_file_def Let_def split: option.splits prod.splits)

lemma traverse_rootPath:
  "traverseDirectory JSON_parse isIgnored dir node st = Inr st' \<Longrightarrow> rootPath (fst st') = rootPath (fst st)"
  "traverseEntries JSON_parse isIgnored dir entries st = Inr st' \<Longrightarrow> rootPath (fst st') = rootPath (fst st)"
proof -
  show "traverseDirectory JSON_parse isIgnored dir node st = Inr st' \<Longrightarrow> rootPath (fst st') = rootPath (fst st)"
    by (rule traverse_invariant(1)[where I = "\<lambda>s. rootPath (fst s) = rootPath (fst st)"])
       (simp_all add: rootPath_visit_file)
  show "traverseEntries JSON_parse isIgnored dir entries st = Inr st' \<Longrightarrow> rootPath (fst st') = rootPath (fst st)"
    by (rule traverse_invariant(2)[where I = "\<lambda>s. rootPath (fst s) = rootPath (fst st)"])
       (simp_all add: rootPath_visit_file)
qed

lemma traverse_pruned:
  "traverseDirectory JSON_parse isIgnored dir node st
     = traverseDirectory JSON_parse isIgnored dir (prune_node isIgnored (rootPath (fst st)) dir node) st"
  "traverseEntries JSON_parse isIgnored dir entries st
     = traverseEntries JSON_parse isIgnored dir (prune_entries isIgnored (rootPath (fst st)) dir entries) st"
proof (induction JSON_parse isIgnored dir node st and JSON_parse isIgnored dir entries st
       rule: traverseDirectory_traverseEntries.induct)
  case (7 JSON_parse isIgnored dir entry node rest st)
  let ?fullPath = "path_join dir entry"
  let ?relativePath = "path_relative (rootPath (fst st)) ?fullPath"
  let ?st0 = "((fst st)\<lparr>directoryCount := directoryCount (fst st) + 1\<rparr>, snd st)"
  note IH = "7.IH"[OF refl refl]
  show ?case
  proof (cases "isIgnored ?relativePath")
    case None
    then show ?thesis
      by (simp add: traverseEntries_Cons del: traverseEntries.simps)
  next
    case (Some ignored)
    note ig = Some
    show ?thesis
    proof (cases ignored)
      case True
      with IH(1)[OF ig True] ig show ?thesis
        by (simp add: traverseEntries_Cons del: traverseEntries.simps)
    next
      case False
      show ?thesis
      proof (cases node)
        case (File c)
        with IH(2)[OF ig False File] ig False show ?thesis
          by (simp add: traverseEntries_Cons rootPath_visit_file del: traverseEntries.simps)
      next
        case (Dir sub)
        have d: "traverseDirectory JSON_parse isIgnored ?fullPath node ?st0
                = traverseDirectory JSON_parse isIgnored ?fullPath
                    (prune_node isIgnored (rootPath (fst st)) ?fullPath node) ?st0"
          using IH(3)[OF ig False Dir] by simp
        have e: "traverseEntries JSON_parse isIgnored dir rest st1
                = traverseEntries JSON_parse isIgnored dir
                    (prune_entries isIgnored (rootPath (fst st)) dir rest) st1"
          if "traverseDirectory JSON_parse isIgnored ?fullPath node ?st0 = Inr st1" for st1
          using IH(4)[OF ig False Dir that] traverse_rootPath(1)[OF that] by simp
        show ?thesis
        proof (cases "traverseDirectory JSON_parse isIgnored ?fullPath node ?st0")
          case (Inl err)
          with d ig False Dir show ?thesis
            by (simp add: traverseEntries_Cons del: traverseEntries.simps)
        next
          case (Inr st1)
          with d e[OF Inr] ig False Dir show ?thesis
            by (simp add: traverseEntries_Cons del: traverseEntries.simps)
        qed
      next
        case UnreadableDir
        with ig False show ?thesis
          by (simp add: traverseEntries_Cons del: traverseEntries.simps)
      next
        case Other
        with IH(7)[OF ig False Other] ig False show ?thesis
          by (simp add: traverseEntries_Cons del: traverseEntries.simps)
      next
        case StatFails
        with ig False show ?thesis
          by (simp add: traverseEntries_Cons del: traverseEntries.simps)
      qed
    qed
  qed
qed simp_all


text \<open>
  C2. An entry whose path relative to the root is ignored is skipped before anything is
  asked about it: whatever the entry is (a directory, a file, an entry that \<open>statSync\<close>
  would raise on), the loop continues with the state it had. So a traversal gives the
  same result, record and service alike, as the traversal of the tree from which every
  ignored entry has been removed with all that is beneath it: nothing beneath an ignored
  directory reaches \<open>files\<close>, \<open>aiRatings\<close>, \<open>fileCount\<close>, \<open>languages\<close> or \<open>totalLines\<close>.
\<close>

theorem ignored_entries_skipped:
  "(isIgnored (path_relative (rootPath projectInfo) (path_join dir entry)) = Some True \<longrightarrow>
      traverseEntries JSON_parse isIgnored dir ((entry, node) # rest) (projectInfo, svc)
        = traverseEntries JSON_parse isIgnored dir rest (projectInfo, svc))
   \<and> traverseEntries JSON_parse isIgnored dir entries (projectInfo, svc)
        = traverseEntries JSON_parse isIgnored dir
            (prune_entries isIgnored (rootPath projectInfo) dir entries) (projectInfo, svc)
   \<and> traverseDirectory JSON_parse isIgnored dir tree (projectInfo, svc)
        = traverseDirectory JSON_parse isIgnored dir
            (prune_node isIgnored (rootPath projectInfo) dir tree) (projectInfo, svc)"
  using traverse_pruned[of JSON_parse isIgnored dir _ "(projectInfo, svc)"]
  by (simp add: traverseEntries_Cons del: traverseEntries.simps)

lemma path_join_ws_node_modules: "path_join ''/ws'' ''node_modules'' = ''/ws/node_modules''"
  by (simp add: path_join_def path_normalize_def path_components_def is_absolute_def js_split_def
      Let_def)

lemma path_relative_ws_node_modules: "path_relative ''/ws'' ''/ws/node_modules'' = ''node_modules''"
  by (simp add: path_relative_def path_components_def js_split_def Let_def)

lemma example_walk_a_py:
  "traverseDirectory never_parses isIgnored ''/ws'' (Dir [(''a.py'', File (Some ''x''))])
      (initial_info ''/ws'', service_off)
   = (case isIgnored ''a.py'' of
        None \<Rightarrow> Inl IgnoresRaised
      | Some ignored \<Rightarrow>
          if ignored then Inr (initial_info ''/ws'', service_off)
          else Inr (\<lparr>projectName = ''ws'', rootPath = ''/ws'', fileCount = 1, directoryCount = 0,
            totalLines = 1, languages = [(''Python'', 1)], elapsedTime = 0, files = [''a.py''],
            aiRatings = \<lparr>own = [(''a.py'', JStr ''Gemini API or model not initialized.'')],
                         proto = None\<rparr>\<rparr>,
          service_off))"
  by (simp add: path_join_ws_a_py path_relative_ws_a_py getLanguage_ws_a_py Let_def visit_file_def
      initial_info_def analyzeContent_def countLines_def js_split_def nl_def count_language_def
      js_set_def empty_object_def not_initialized_def service_off_def
      path_basename_def path_components_def split: option.splits)

lemma rootPath_initial_info: "rootPath (initial_info rootDir) = rootDir"
  by (simp add: initial_info_def)

theorem ignored_entries_skipped_witness:
  "ignores_node_modules (path_relative ''/ws'' (path_join ''/ws'' ''node_modules'')) = Some True
   \<and> traverseDirectory never_parses ignores_node_modules ''/ws''
        (Dir [(''node_modules'', Dir [(''x.js'', File (Some ''y'')), (''broken'', StatFails)]),
              (''a.py'', File (Some ''x''))])
        (initial_info ''/ws'', service_off)
      = Inr (\<lparr>projectName = ''ws'', rootPath = ''/ws'', fileCount = 1, directoryCount = 0,
            totalLines = 1, languages = [(''Python'', 1)], elapsedTime = 0, files = [''a.py''],
            aiRatings = \<lparr>own = [(''a.py'', JStr ''Gemini API or model not initialized.'')],
                         proto = None\<rparr>\<rparr>,
          service_off)"
  using ignored_entries_skipped[where isIgnored = ignores_node_modules
      and projectInfo = "initial_info ''/ws''" and dir = "''/ws''" and entry = "''node_modules''"
      and JSON_parse = never_parses and svc = service_off
      and tree = "Dir [(''node_modules'', Dir [(''x.js'', File (Some ''y'')), (''broken'', StatFails)]),
              (''a.py'', File (Some ''x''))]"]
  by (simp add: path_join_ws_node_modules path_relative_ws_node_modules path_join_ws_a_py
      path_relative_ws_a_py example_walk_a_py ignores_node_modules_def rootPath_initial_info
      del: traverseDirectory.simps traverseEntries.simps)


subsection \<open>Entries stored while the service is not initialized\<close>

lemma visit_readable_unavailable:
  assumes "\<not> genAI svc \<or> model svc = None"
  shows "visit_file JSON_parse fullPath relativePath (Some fileContent) (projectInfo, svc) =
     (projectInfo\<lparr>fileCount := fileCount projectInfo + 1,
        languages := count_language (getLanguage fullPath) (languages projectInfo),
        totalLines := totalLines projectInfo + countLines (Some fileContent),
        files := files projectInfo @ [relativePath],
        aiRatings := js_set (aiRatings projectInfo) relativePath (JStr not_initialized)\<rparr>, svc)"
  by (simp add: visit_file_def Let_def analyzeContent_unavailable[OF assms])

text \<open>
  C9, as amended. While the service is not initialized, a file that is read and whose
  relative path is not \<open>__proto__\<close> gets the string
  \<open>Gemini API or model not initialized.\<close> as its entry of \<open>aiRatings\<close>, not an object:
  reading \<open>rating\<close>, \<open>complexity\<close>, \<open>explanation\<close> or \<open>suggestions\<close> of the entry gives
  \<open>undefined\<close>. The claim as stated speaks of every file processed; the counterexample
  is a file that cannot be read, whose entry is the default analysis, an object with
  rating 0, also while the service is not initialized.
\<close>

theorem unavailable_stores_string:
  assumes "\<not> genAI svc \<or> model svc = None"
      and "isIgnored (path_relative (rootPath projectInfo) (path_join dir entry)) = Some False"
      and "path_relative (rootPath projectInfo) (path_join dir entry) \<noteq> ''__proto__''"
  shows "\<exists>projectInfo'.
            traverseEntries JSON_parse isIgnored dir ((entry, File (Some fileContent)) # rest)
                (projectInfo, svc)
              = traverseEntries JSON_parse isIgnored dir rest (projectInfo', svc)
          \<and> files projectInfo'
              = files projectInfo @ [path_relative (rootPath projectInfo) (path_join dir entry)]
          \<and> map_of (own (aiRatings projectInfo')) (path_relative (rootPath projectInfo) (path_join dir entry))
              = Some (JStr ''Gemini API or model not initialized.'')
          \<and> js_get (aiRatings projectInfo') (path_relative (rootPath projectInfo) (path_join dir entry))
              = JStr ''Gemini API or model not initialized.''
          \<and> get_prop (JStr ''Gemini API or model not initialized.'') ''rating'' = Some JUndefined
          \<and> get_prop (JStr ''Gemini API or model not initialized.'') ''complexity'' = Some JUndefined
          \<and> get_prop (JStr ''Gemini API or model not initialized.'') ''explanation'' = Some JUndefined
          \<and> get_prop (JStr ''Gemini API or model not initialized.'') ''suggestions'' = Some JUndefined"
proof -
  let ?rel = "path_relative (rootPath projectInfo) (path_join dir entry)"
  let ?p = "projectInfo\<lparr>fileCount := fileCount projectInfo + 1,
        languages := count_language (getLanguage (path_join dir entry)) (languages projectInfo),
        totalLines := totalLines projectInfo + countLines (Some fileContent),
        files := files projectInfo @ [?rel],
        aiRatings := js_set (aiRatings projectInfo) ?rel (JStr not_initialized)\<rparr>"
  have step: "traverseEntries JSON_parse isIgnored dir ((entry, File (Some fileContent)) # rest)
                (projectInfo, svc)
              = traverseEntries JSON_parse isIgnored dir rest (?p, svc)"
    unfolding traverseEntries_Cons using assms(2) by (simp add: visit_readable_unavailable[OF assms(1)])
  have own: "map_of (own (js_set (aiRatings projectInfo) ?rel (JStr not_initialized))) ?rel
               = Some (JStr ''Gemini API or model not initialized.'')"
    using js_get_js_set_plain(2)[OF assms(3)] by (simp add: not_initialized_def)
  have get: "js_get (js_set (aiRatings projectInfo) ?rel (JStr not_initialized)) ?rel
               = JStr ''Gemini API or model not initialized.''"
    using js_get_js_set_plain(1)[OF assms(3)] by (simp add: not_initialized_def)
  show ?thesis
    by (rule exI[of _ ?p])
       (simp add: step own get object_prototype_get_def object_prototype_members_def
          del: traverseEntries.simps)
qed

theorem unavailable_stores_string_witness:
  "\<exists>p. traverseEntries never_parses ignores_nothing ''/ws'' [(''a.py'', File (Some ''x''))]
          (initial_info ''/ws'', service_off) = Inr (p, service_off)
       \<and> files p = [''a.py'']
       \<and> js_get (aiRatings p) ''a.py'' = JStr ''Gemini API or model not initialized.''"
  using unavailable_stores_string[where svc = service_off and isIgnored = ignores_nothing
      and projectInfo = "initial_info ''/ws''" and dir = "''/ws''" and entry = "''a.py''"
      and JSON_parse = never_parses and fileContent = "''x''" and rest = "[]"]
  by (auto simp add: service_off_def ignores_nothing_def initial_info_def path_join_ws_a_py
      path_relative_ws_a_py)

theorem unavailable_stores_string_counterexample:
  "traverseDirectory never_parses ignores_nothing ''/ws'' (Dir [(''a.py'', File None)])
      (initial_info ''/ws'', service_off)
   = Inr (\<lparr>projectName = ''ws'', rootPath = ''/ws'', fileCount = 1, directoryCount = 0,
            totalLines = 0, languages = [(''Python'', 1)], elapsedTime = 0, files = [''a.py''],
            aiRatings =
              \<lparr>own = [(''a.py'', FileAnalysis (JNum 0) (JStr ''N/A'') (JStr ''Error processing file'')
                                  (JStr []))],
               proto = None\<rparr>\<rparr>,
          service_off)
   \<and> genAI service_off = False
   \<and> FileAnalysis (JNum 0) (JStr ''N/A'') (JStr ''Error processing file'') (JStr [])
       \<noteq> JStr ''Gemini API or model not initialized.''
   \<and> get_prop (FileAnalysis (JNum 0) (JStr ''N/A'') (JStr ''Error processing file'') (JStr []))
         ''rating'' = Some (JNum 0)"
  by (simp add: path_join_ws_a_py path_relative_ws_a_py getLanguage_ws_a_py Let_def visit_file_def
      initial_info_def countLines_def count_language_def js_set_def empty_object_def
      default_analysis_def service_off_def ignores_nothing_def FileAnalysis_def
      path_basename_def path_components_def js_split_def)


subsection \<open>Keys and files\<close>

lemma set_js_entries: "set (js_entries obj) = set (own obj)"
  by (auto simp: js_entries_def)

lemma set_js_keys: "set (js_keys obj) = fst ` set (own obj)"
  by (simp add: js_keys_def set_js_entries)

lemma keys_upsert: "fst ` set (upsert k v xs) = insert k (fst ` set xs)"
proof (induction xs)
  case Nil
  then show ?case by simp
next
  case (Cons x xs)
  obtain k' v' where x: "x = (k', v')" by (cases x)
  show ?case
  proof (cases "k = k'")
    case True
    then show ?thesis by (simp add: x)
  next
    case False
    then show ?thesis using Cons.IH by (simp add: x insert_commute)
  qed
qed

lemma set_js_keys_js_set:
  "k \<noteq> ''__proto__'' \<Longrightarrow> set (js_keys (js_set obj k v)) = insert k (set (js_keys obj))"
  by (simp add: set_js_keys js_set_def keys_upsert)

lemma visit_file_files_ratings:
  "\<exists>v. files (fst (visit_file JSON_parse fullPath relativePath c st)) = files (fst st) @ [relativePath]
     \<and> aiRatings (fst (visit_file JSON_parse fullPath relativePath c st))
         = js_set (aiRatings (fst st)) relativePath v"
  by (cases st) (auto simp: visit_file_def Let_def split: option.splits prod.splits)

text \<open>
  The keys of \<open>aiRatings\<close> and the paths in \<open>files\<close> stay the same set as long as no
  path is the key \<open>__proto__\<close>: every other assignment creates or overwrites the
  property of that name.
\<close>

lemma lockstep_unless_proto:
  assumes run: "traverseDirectory JSON_parse isIgnored dir node (projectInfo, svc) = Inr (projectInfo', svc')"
      and start: "set (js_keys (aiRatings projectInfo)) = set (files projectInfo)"
      and none: "''__proto__'' \<notin> set (files projectInfo')"
  shows "set (js_keys (aiRatings projectInfo')) = set (files projectInfo')"
proof -
  define key where "key = ''__proto__''"
  define I where "I = (\<lambda>st :: ProjectInfo \<times> service. key \<notin> set (files (fst st))
              \<longrightarrow> set (js_keys (aiRatings (fst st))) = set (files (fst st)))"
  have keys: "set (js_keys (js_set obj k v)) = insert k (set (js_keys obj))" if "k \<noteq> key" for obj k v
    using that set_js_keys_js_set unfolding key_def by blast
  have "I (projectInfo', svc')"
  proof (rule traverse_invariant(1)[where I = I, OF _ _ run])
    fix fullPath relativePath c and st :: "ProjectInfo \<times> service"
    assume inv: "I st"
    from visit_file_files_ratings[of JSON_parse fullPath relativePath c st] obtain v where
      f: "files (fst (visit_file JSON_parse fullPath relativePath c st)) = files (fst st) @ [relativePath]"
      and a: "aiRatings (fst (visit_file JSON_parse fullPath relativePath c st))
         = js_set (aiRatings (fst st)) relativePath v"
      by blast
    show "I (visit_file JSON_parse fullPath relativePath c st)"
      unfolding I_def
    proof
      assume "key \<notin> set (files (fst (visit_file JSON_parse fullPath relativePath c st)))"
      then have r: "relativePath \<noteq> key" and n: "key \<notin> set (files (fst st))"
        by (auto simp: f)
      from inv n have "set (js_keys (aiRatings (fst st))) = set (files (fst st))"
        by (simp add: I_def)
      then show "set (js_keys (aiRatings (fst (visit_file JSON_parse fullPath relativePath c st))))
          = set (files (fst (visit_file JSON_parse fullPath relativePath c st)))"
        by (simp add: f a keys[OF r])
    qed
  next
    fix st :: "ProjectInfo \<times> service"
    assume "I st"
    then show "I ((fst st)\<lparr>directoryCount := directoryCount (fst st) + 1\<rparr>, snd st)"
      by (simp add: I_def)
  next
    show "I (projectInfo, svc)" using start by (simp add: I_def)
  qed
  with none show ?thesis by (simp add: I_def key_def)
qed

lemma path_join_ws_proto: "path_join ''/ws'' ''__proto__'' = ''/ws/__proto__''"
  by (simp add: path_join_def path_normalize_def path_components_def is_absolute_def js_split_def
      Let_def)

lemma path_relative_ws_proto: "path_relative ''/ws'' ''/ws/__proto__'' = ''__proto__''"
  by (simp add: path_relative_def path_components_def js_split_def Let_def)

lemma getLanguage_ws_proto: "getLanguage ''/ws/__proto__'' = ''Unknown''"
  by (simp add: getLanguage_def path_extname_def path_basename_def path_components_def js_split_def
      language_table_def toLowerCase_def lower_char_def Let_def)

text \<open>
  C1. The claim is that after a traversal the keys of \<open>aiRatings\<close> are exactly the
  paths in \<open>files\<close>. The code misses one case. For a file named \<open>__proto__\<close> in the
  workspace root the path \<open>__proto__\<close> is appended to \<open>files\<close>, but the assignment
  \<open>aiRatings["__proto__"] = v\<close> creates no property: for a string it does nothing, for an
  object it replaces the prototype of \<open>aiRatings\<close>. In both runs below \<open>files\<close> holds
  the path and \<open>aiRatings\<close> has no key at all.
\<close>

theorem lockstep_broken_by_proto_key:
  "traverseDirectory never_parses ignores_nothing ''/ws'' (Dir [(''__proto__'', File (Some ''x''))])
      (initial_info ''/ws'', service_off)
   = Inr (\<lparr>projectName = ''ws'', rootPath = ''/ws'', fileCount = 1, directoryCount = 0,
            totalLines = 1, languages = [(''Unknown'', 1)], elapsedTime = 0,
            files = [''__proto__''], aiRatings = \<lparr>own = [], proto = None\<rparr>\<rparr>,
          service_off)
   \<and> traverseDirectory never_parses ignores_nothing ''/ws'' (Dir [(''__proto__'', File None)])
      (initial_info ''/ws'', service_off)
   = Inr (\<lparr>projectName = ''ws'', rootPath = ''/ws'', fileCount = 1, directoryCount = 0,
            totalLines = 0, languages = [(''Unknown'', 1)], elapsedTime = 0,
            files = [''__proto__''],
            aiRatings = \<lparr>own = [],
              proto = Some (FileAnalysis (JNum 0) (JStr ''N/A'') (JStr ''Error processing file'')
                              (JStr []))\<rparr>\<rparr>,
          service_off)
   \<and> js_keys \<lparr>own = [], proto = None\<rparr> = []
   \<and> js_keys \<lparr>own = [],
         proto = Some (FileAnalysis (JNum 0) (JStr ''N/A'') (JStr ''Error processing file'')
                         (JStr []))\<rparr> = []"
  by (simp add: path_join_ws_proto path_relative_ws_proto getLanguage_ws_proto Let_def visit_file_def
      initial_info_def analyzeContent_def countLines_def js_split_def nl_def count_language_def
      js_set_def empty_object_def not_initialized_def default_analysis_def service_off_def
      ignores_nothing_def FileAnalysis_def js_keys_def js_entries_def
      path_basename_def path_components_def)


subsection \<open>A rated file that reaches no bucket\<close>

text \<open>
  C7. The claim is that every analyzed file is in exactly one bucket, the one of its
  rating. The report forms the buckets from \<open>Object.entries(projectInfo.aiRatings)\<close>, with
  the thresholds 8 and 4 (lemma \<open>quality_buckets\<close>), so a file is grouped only when the
  assignment \<open>aiRatings[relativePath] = aiRating\<close> has made an entry. For a file named
  \<open>__proto__\<close> in the workspace root it makes none. In the first run below the service
  rates that file 9: the path is in \<open>files\<close>, the analysis with rating 9 has become the
  prototype of \<open>aiRatings\<close>, and the three buckets are empty. In the second run the same
  file is named \<open>a.py\<close> and is in the high bucket.
\<close>

theorem proto_file_in_no_bucket:
  \<open>traverseDirectory parses_example ignores_nothing ''/ws'' (Dir [(''__proto__'', File (Some ''x''))])
      (initial_info ''/ws'', service_answering ''{"rating":9}'')
   = Inr (\<lparr>projectName = ''ws'', rootPath = ''/ws'', fileCount = 1, directoryCount = 0,
            totalLines = 1, languages = [(''Unknown'', 1)], elapsedTime = 0,
            files = [''__proto__''],
            aiRatings = \<lparr>own = [],
              proto = Some (FileAnalysis (JNum 9) (JStr ''O(1)'') (JStr []) (JStr []))\<rparr>\<rparr>,
          (service_answering ''{"rating":9}'')\<lparr>requests := 1\<rparr>)
   \<and> groupByQuality ToNumber
        \<lparr>projectName = ''ws'', rootPath = ''/ws'', fileCount = 1, directoryCount = 0,
         totalLines = 1, languages = [(''Unknown'', 1)], elapsedTime = 0,
         files = [''__proto__''],
         aiRatings = \<lparr>own = [],
           proto = Some (FileAnalysis (JNum 9) (JStr ''O(1)'') (JStr []) (JStr []))\<rparr>\<rparr>
     = Some \<lparr>high = [], medium = [], low = []\<rparr>
   \<and> traverseDirectory parses_example ignores_nothing ''/ws'' (Dir [(''a.py'', File (Some ''x''))])
      (initial_info ''/ws'', service_answering ''{"rating":9}'')
   = Inr (\<lparr>projectName = ''ws'', rootPath = ''/ws'', fileCount = 1, directoryCount = 0,
            totalLines = 1, languages = [(''Python'', 1)], elapsedTime = 0,
            files = [''a.py''],
            aiRatings =
              \<lparr>own = [(''a.py'', FileAnalysis (JNum 9) (JStr ''O(1)'') (JStr []) (JStr []))],
               proto = None\<rparr>\<rparr>,
          (service_answering ''{"rating":9}'')\<lparr>requests := 1\<rparr>)
   \<and> groupByQuality ToNumber
        \<lparr>projectName = ''ws'', rootPath = ''/ws'', fileCount = 1, directoryCount = 0,
         totalLines = 1, languages = [(''Python'', 1)], elapsedTime = 0,
         files = [''a.py''],
         aiRatings =
           \<lparr>own = [(''a.py'', FileAnalysis (JNum 9) (JStr ''O(1)'') (JStr []) (JStr []))],
            proto = None\<rparr>\<rparr>
     = Some \<lparr>high = [\<lparr>name = ''a.py'', rating = JNum 9, complexity = JStr ''O(1)''\<rparr>],
             medium = [], low = []\<rparr>\<close>
proof -
  have answer: \<open>fst (analyzeContent parses_example (service_answering ''{"rating":9}'') filePath ''x'')
          = FileAnalysis (JNum 9) (JStr ''O(1)'') (JStr []) (JStr [])\<close>
    \<open>snd (analyzeContent parses_example (service_answering ''{"rating":9}'') filePath ''x'')
          = (service_answering ''{"rating":9}'')\<lparr>requests := 1\<rparr>\<close> for filePath
    by (simp_all add: analyzeContent_def service_answering_def Let_def extract_json_def
        fence_json_def parse_analysis_def parses_example_def js_or_def object_prototype_get_def
        object_prototype_members_def)
  then have run: \<open>analyzeContent parses_example (service_answering ''{"rating":9}'') filePath ''x''
          = (FileAnalysis (JNum 9) (JStr ''O(1)'') (JStr []) (JStr []),
             (service_answering ''{"rating":9}'')\<lparr>requests := 1\<rparr>)\<close> for filePath
    by (simp add: prod_eq_iff)
  have a: \<open>traverseDirectory parses_example ignores_nothing ''/ws'' (Dir [(''__proto__'', File (Some ''x''))])
      (initial_info ''/ws'', service_answering ''{"rating":9}'')
   = Inr (\<lparr>projectName = ''ws'', rootPath = ''/ws'', fileCount = 1, directoryCount = 0,
            totalLines = 1, languages = [(''Unknown'', 1)], elapsedTime = 0,
            files = [''__proto__''],
            aiRatings = \<lparr>own = [],
              proto = Some (FileAnalysis (JNum 9) (JStr ''O(1)'') (JStr []) (JStr []))\<rparr>\<rparr>,
          (service_answering ''{"rating":9}'')\<lparr>requests := 1\<rparr>)\<close>
    by (simp add: path_join_ws_proto path_relative_ws_proto getLanguage_ws_proto Let_def
        visit_file_def initial_info_def run countLines_def js_split_def nl_def count_language_def
        js_set_def empty_object_def ignores_nothing_def FileAnalysis_def
        path_basename_def path_components_def)
  have b: \<open>groupByQuality ToNumber
        \<lparr>projectName = ''ws'', rootPath = ''/ws'', fileCount = 1, directoryCount = 0,
         totalLines = 1, languages = [(''Unknown'', 1)], elapsedTime = 0,
         files = [''__proto__''],
         aiRatings = \<lparr>own = [],
           proto = Some (FileAnalysis (JNum 9) (JStr ''O(1)'') (JStr []) (JStr []))\<rparr>\<rparr>
     = Some \<lparr>high = [], medium = [], low = []\<rparr>\<close>
    by (simp add: groupByQuality_def js_entries_def)
  have c: \<open>traverseDirectory parses_example ignores_nothing ''/ws'' (Dir [(''a.py'', File (Some ''x''))])
      (initial_info ''/ws'', service_answering ''{"rating":9}'')
   = Inr (\<lparr>projectName = ''ws'', rootPath = ''/ws'', fileCount = 1, directoryCount = 0,
            totalLines = 1, languages = [(''Python'', 1)], elapsedTime = 0,
            files = [''a.py''],
            aiRatings =
              \<lparr>own = [(''a.py'', FileAnalysis (JNum 9) (JStr ''O(1)'') (JStr []) (JStr []))],
               proto = None\<rparr>\<rparr>,
          (service_answering ''{"rating":9}'')\<lparr>requests := 1\<rparr>)\<close>
    by (simp add: path_join_ws_a_py path_relative_ws_a_py getLanguage_ws_a_py Let_def
        visit_file_def initial_info_def run countLines_def js_split_def nl_def count_language_def
        js_set_def empty_object_def ignores_nothing_def
        path_basename_def path_components_def)
  have d: \<open>groupByQuality ToNumber
        \<lparr>projectName = ''ws'', rootPath = ''/ws'', fileCount = 1, directoryCount = 0,
         totalLines = 1, languages = [(''Python'', 1)], elapsedTime = 0,
         files = [''a.py''],
         aiRatings =
           \<lparr>own = [(''a.py'', FileAnalysis (JNum 9) (JStr ''O(1)'') (JStr []) (JStr []))],
            proto = None\<rparr>\<rparr>
     = Some \<lparr>high = [\<lparr>name = ''a.py'', rating = JNum 9, complexity = JStr ''O(1)''\<rparr>],
             medium = [], low = []\<rparr>\<close>
    by (simp add: groupByQuality_def js_entries_def array_index_a_py fileInfo_of_def
        FileAnalysis_def push_file_def js_ge_def js_or_def)
  from a b c d show ?thesis by (simp only: simp_thms)
qed


end
